theory Spec2Isabelle
  imports Main "HOL-Library.Sublist"
begin

section \<open>JavaScript strings\<close>

text \<open>
  A JavaScript string is a sequence of UTF-16 code units; \<open>length\<close> counts code units, as
  \<^verbatim>\<open>String.prototype.length\<close> does. Literals of the source that are plain ASCII are written
  with \<open>js\<close>; code units outside ASCII (emoji, bullets) are written as numbers.
\<close>

type_synonym jsstring = "nat list"

definition js :: "string \<Rightarrow> jsstring" where
  "js s = map of_char s"

text \<open>The WhiteSpace and LineTerminator code units that \<^verbatim>\<open>String.prototype.trim\<close> strips.\<close>

definition isWhiteSpace :: "nat \<Rightarrow> bool" where
  "isWhiteSpace c \<longleftrightarrow>
     c \<in> set [9, 10, 11, 12, 13, 32, 160, 5760, 8232, 8233, 8239, 8287, 12288, 65279]
     \<or> (8192 \<le> c \<and> c \<le> 8202)"

definition trim :: "jsstring \<Rightarrow> jsstring" where
  "trim s = rev (dropWhile isWhiteSpace (rev (dropWhile isWhiteSpace s)))"

text \<open>\<^verbatim>\<open>s.includes(k)\<close>: \<open>k\<close> occurs in \<open>s\<close> as a contiguous run.\<close>

definition js_includes :: "jsstring \<Rightarrow> jsstring \<Rightarrow> bool" where
  "js_includes s k = sublist k s"

text \<open>
  \<^verbatim>\<open>s.toLowerCase()\<close> on the Basic Latin and Latin-1 ranges; code units above U+00FF are
  left as they are (their case mapping is not modelled).
\<close>

definition lowerUnit :: "nat \<Rightarrow> nat" where
  "lowerUnit c = (if (65 \<le> c \<and> c \<le> 90) \<or> (192 \<le> c \<and> c \<le> 222 \<and> c \<noteq> 215) then c + 32 else c)"

definition toLowerCase :: "jsstring \<Rightarrow> jsstring" where
  "toLowerCase s = map lowerUnit s"

section \<open>Messages and conversations\<close>

datatype sender = User | Bot

datatype messageType = Text | File | Image

datatype status = Active | Closed | Archived

text \<open>
  The \<^verbatim>\<open>metadata\<close> object of a message: either what the completion service returns
  (\<^verbatim>\<open>{model, tokens, confidence, contextUsed, isMock, errorType}\<close>, the confidence
  0.5, 0.7 or 0.8 kept in tenths) or the router's \<^verbatim>\<open>{ error: true }\<close>.
\<close>

datatype metadata =
    ProviderMeta (model: jsstring) (tokens: nat) (confidence_tenths: nat)
      (contextUsed: bool) (isMock: bool) (errorType: "jsstring option")
  | ErrorMeta

text \<open>
  One record for the message objects of both sides. \<open>temp\<close> is the client's \<^verbatim>\<open>_temp\<close>
  marker (absent, hence falsy, on every object the server builds) and \<open>temp_id\<close> the
  client's \<^verbatim>\<open>_id: Date.now().toString()\<close>.
\<close>

record message =
  sender :: sender
  content :: jsstring
  timestamp :: nat
  messageType :: messageType
  metadata :: "metadata option"
  temp :: bool
  temp_id :: "nat option"

record conversation =
  conv_id :: nat
  userId :: nat
  sessionId :: nat
  title :: jsstring
  conv_messages :: "message list"
  status :: status
  lastActivity :: nat

section \<open>The client store (ChatStore.js)\<close>

text \<open>
  \<^verbatim>\<open>this.socket\<close> is \<open>None\<close> for \<^verbatim>\<open>null\<close>; otherwise it carries the library's
  \<^verbatim>\<open>connected\<close> flag and the handles of the timers that the
  \<^verbatim>\<open>socket.once('messageSent', ...)\<close> listeners registered on it will clear.
\<close>

record sock =
  connected :: bool
  once_messageSent :: "nat list"

text \<open>
  What a pending browser timer does when it fires: the reconnection attempt (with the
  delay it was scheduled with, in ms), the 10 s wait for \<^verbatim>\<open>messageSent\<close> with the
  \<^verbatim>\<open>message\<close> and \<^verbatim>\<open>conversationId\<close> its callback closes over, or the heartbeat.
\<close>

datatype timer =
    ReconnectTimer nat
  | SocketTimeout jsstring "nat option"
  | HeartbeatInterval

text \<open>
  The fields of the class, followed by the browser's table of pending timers
  (\<^verbatim>\<open>setTimeout\<close>/\<^verbatim>\<open>setInterval\<close> handles that were neither cleared nor fired) and
  the next free handle. \<^verbatim>\<open>maxRetries\<close> is never assigned after its initialiser.
\<close>

record chat_store =
  conversations :: "conversation list"
  currentConversation :: "conversation option"
  messages :: "message list"
  isLoading :: bool
  isConnected :: bool
  isTyping :: bool
  error :: "jsstring option"
  socket :: "sock option"
  connectionRetries :: nat
  reconnectTimeout :: "nat option"
  heartbeatInterval :: "nat option"
  timers :: "(nat \<times> timer) list"
  nextHandle :: nat

definition maxRetries :: nat where
  "maxRetries = 5"

definition initial_store :: chat_store where
  "initial_store = \<lparr> conversations = [], currentConversation = None, messages = [],
     isLoading = False, isConnected = False, isTyping = False, error = None, socket = None,
     connectionRetries = 0, reconnectTimeout = None, heartbeatInterval = None,
     timers = [], nextHandle = 1 \<rparr>"

text \<open>\<^verbatim>\<open>this.socket?.connected\<close> as a condition.\<close>

definition socket_connected :: "chat_store \<Rightarrow> bool" where
  "socket_connected s = (case socket s of None \<Rightarrow> False | Some k \<Rightarrow> connected k)"

subsection \<open>Setters\<close>

definition setLoading :: "bool \<Rightarrow> chat_store \<Rightarrow> chat_store" where
  "setLoading val s = s\<lparr>isLoading := val\<rparr>"

definition setError :: "jsstring \<Rightarrow> chat_store \<Rightarrow> chat_store" where
  "setError err s = s\<lparr>error := Some err\<rparr>"

definition clearError :: "chat_store \<Rightarrow> chat_store" where
  "clearError s = s\<lparr>error := None\<rparr>"

definition setConnected :: "bool \<Rightarrow> chat_store \<Rightarrow> chat_store" where
  "setConnected val s =
     (let s1 = s\<lparr>isConnected := val\<rparr>
      in if val then s1\<lparr>connectionRetries := 0\<rparr> else s1)"

definition setTyping :: "bool \<Rightarrow> chat_store \<Rightarrow> chat_store" where
  "setTyping val s = s\<lparr>isTyping := val\<rparr>"

text \<open>
  \<^verbatim>\<open>setCurrentConversation(conv)\<close>; a conversation object always has its
  \<^verbatim>\<open>messages\<close> array here, so the \<^verbatim>\<open>conv.messages\<close> test is the test on \<open>conv\<close>.
\<close>

definition setCurrentConversation :: "conversation option \<Rightarrow> chat_store \<Rightarrow> chat_store" where
  "setCurrentConversation conv s =
     (case conv of
        None \<Rightarrow> s\<lparr>currentConversation := None, messages := []\<rparr>
      | Some c \<Rightarrow> s\<lparr>currentConversation := Some c, messages := conv_messages c\<rparr>)"

definition addConversation :: "conversation \<Rightarrow> chat_store \<Rightarrow> chat_store" where
  "addConversation conv s = s\<lparr>conversations := conv # conversations s\<rparr>"

text \<open>
  \<^verbatim>\<open>addMessage(msg)\<close> for a message object (the \<^verbatim>\<open>msg &&\<close> half of the guard holds):
  nothing happens without a current conversation.
\<close>

definition addMessage :: "nat \<Rightarrow> message \<Rightarrow> chat_store \<Rightarrow> chat_store" where
  "addMessage now msg s =
     (case currentConversation s of
        None \<Rightarrow> s
      | Some c \<Rightarrow> s\<lparr>messages := messages s @ [msg],
                     currentConversation := Some (c\<lparr>lastActivity := now\<rparr>)\<rparr>)"

definition updateConversationTitle :: "jsstring \<Rightarrow> chat_store \<Rightarrow> chat_store" where
  "updateConversationTitle t s =
     (case currentConversation s of
        None \<Rightarrow> s
      | Some c \<Rightarrow> if t = [] then s
                  else s\<lparr>currentConversation := Some (c\<lparr>title := take 100 t\<rparr>)\<rparr>)"

text \<open>\<^verbatim>\<open>this.messages = this.messages.filter(msg => !msg._temp)\<close>.\<close>

definition removeTemp :: "chat_store \<Rightarrow> chat_store" where
  "removeTemp s = s\<lparr>messages := filter (\<lambda>m. \<not> temp m) (messages s)\<rparr>"

subsection \<open>Message events of the socket\<close>

text \<open>
  The \<^verbatim>\<open>messageSent\<close> handler; \<open>data\<close> is \<^verbatim>\<open>data?.message\<close>. This is the store's
  reconciliation of a server confirmation.
\<close>

definition on_messageSent :: "nat \<Rightarrow> message option \<Rightarrow> chat_store \<Rightarrow> chat_store" where
  "on_messageSent now data s =
     (case data of
        None \<Rightarrow> s
      | Some m \<Rightarrow> addMessage now m (removeTemp s))"

definition on_botMessage :: "nat \<Rightarrow> message option \<Rightarrow> chat_store \<Rightarrow> chat_store" where
  "on_botMessage now data s =
     (case data of
        None \<Rightarrow> setTyping False s
      | Some m \<Rightarrow> addMessage now m (setTyping False s))"

text \<open>The objects the two sides build for a user message.\<close>

definition tempUserMessage :: "nat \<Rightarrow> jsstring \<Rightarrow> message" where
  "tempUserMessage now msg = \<lparr> sender = User, content = trim msg, timestamp = now,
     messageType = Text, metadata = None, temp = True, temp_id = Some now \<rparr>"

definition userMessage :: "nat \<Rightarrow> jsstring \<Rightarrow> message" where
  "userMessage now msg = \<lparr> sender = User, content = trim msg, timestamp = now,
     messageType = Text, metadata = None, temp = False, temp_id = None \<rparr>"

text \<open>A sample conversation without messages, for concrete runs.\<close>

definition empty_conversation :: "nat \<Rightarrow> conversation" where
  "empty_conversation i = \<lparr> conv_id = i, userId = 1, sessionId = 1, title = js ''Hello'',
     conv_messages = [], status = Active, lastActivity = 0 \<rparr>"

subsection \<open>The browser around the store\<close>

text \<open>
  What \<^verbatim>\<open>apiService\<close> reads from local storage: the token, the id of the stored user
  and whether the token's \<^verbatim>\<open>exp\<close> lies in the past.
\<close>

record env =
  token :: "jsstring option"
  user :: "nat option"
  expired :: bool

definition isAuthenticated :: "env \<Rightarrow> bool" where
  "isAuthenticated e \<longleftrightarrow> token e \<noteq> None \<and> user e \<noteq> None \<and> \<not> expired e"

text \<open>What the store does to the outside: socket emissions, the HTTP call, toasts.\<close>

datatype effect =
    EmitJoinConversation nat
  | EmitNewMessage jsstring "nat option" "nat option"
  | EmitPing
  | ApiSendMessage jsstring "nat option"
  | SocketConnect
  | SocketOpen
  | SocketClose
  | ToastError jsstring
  | ToastSuccess jsstring

text \<open>
  Timer handles of a browser are positive numbers, so \<^verbatim>\<open>if (this.reconnectTimeout)\<close> is
  the test against \<^verbatim>\<open>null\<close>. \<open>clearTimeout\<close> also stands for \<^verbatim>\<open>clearInterval\<close>.
\<close>

definition clearTimeout :: "nat \<Rightarrow> chat_store \<Rightarrow> chat_store" where
  "clearTimeout h s = s\<lparr>timers := filter (\<lambda>p. fst p \<noteq> h) (timers s)\<rparr>"

definition setTimeout :: "timer \<Rightarrow> chat_store \<Rightarrow> nat \<times> chat_store" where
  "setTimeout t s =
     (nextHandle s, s\<lparr>timers := timers s @ [(nextHandle s, t)], nextHandle := Suc (nextHandle s)\<rparr>)"

subsection \<open>Reconnection\<close>

text \<open>The delay of the scheduled retry is \<^verbatim>\<open>min(1000 * 2^(retries - 1), 16000)\<close> ms.\<close>

definition backoff :: "nat \<Rightarrow> nat" where
  "backoff n = min (1000 * 2 ^ (n - 1)) 16000"

definition scheduleReconnection :: "chat_store \<Rightarrow> chat_store" where
  "scheduleReconnection s =
     (let s1 = (case reconnectTimeout s of None \<Rightarrow> s | Some h \<Rightarrow> clearTimeout h s)
      in if connectionRetries s1 \<ge> maxRetries then s1
         else
           (let s2 = s1\<lparr>connectionRetries := connectionRetries s1 + 1\<rparr>;
                (h, s3) = setTimeout (ReconnectTimer (backoff (connectionRetries s2))) s2
            in s3\<lparr>reconnectTimeout := Some h\<rparr>))"

text \<open>The callback of the reconnection timer.\<close>

definition reconnect_fired :: "env \<Rightarrow> chat_store \<Rightarrow> effect list \<times> chat_store" where
  "reconnect_fired e s =
     (if isAuthenticated e \<and> \<not> socket_connected s
      then (case socket s of None \<Rightarrow> ([], s) | Some k \<Rightarrow> ([SocketConnect], s))
      else ([], s))"

definition clearHeartbeat :: "chat_store \<Rightarrow> chat_store" where
  "clearHeartbeat s =
     (case heartbeatInterval s of
        None \<Rightarrow> s
      | Some h \<Rightarrow> (clearTimeout h s)\<lparr>heartbeatInterval := None\<rparr>)"

definition setupHeartbeat :: "chat_store \<Rightarrow> chat_store" where
  "setupHeartbeat s =
     (let (h, s1) = setTimeout HeartbeatInterval (clearHeartbeat s)
      in s1\<lparr>heartbeatInterval := Some h\<rparr>)"

definition heartbeat_fired :: "chat_store \<Rightarrow> effect list \<times> chat_store" where
  "heartbeat_fired s = (if socket_connected s then [EmitPing] else [], s)"

subsection \<open>Connection events of the socket\<close>

definition on_connect :: "chat_store \<Rightarrow> effect list \<times> chat_store" where
  "on_connect s =
     (let s1 = (clearError (setConnected True s))\<lparr>connectionRetries := 0\<rparr>;
          joins = (case currentConversation s1 of
                     None \<Rightarrow> [] | Some c \<Rightarrow> [EmitJoinConversation (conv_id c)])
      in (joins @ [ToastSuccess (js ''Connected to chat server'')], setupHeartbeat s1))"

text \<open>
  The \<^verbatim>\<open>disconnect\<close> handler: the server's disconnect and every other reason schedule a
  reconnection, the client's own disconnect does not.
\<close>

definition on_disconnect :: "jsstring \<Rightarrow> chat_store \<Rightarrow> chat_store" where
  "on_disconnect reason s =
     (let s1 = clearHeartbeat (setTyping False (setConnected False s))
      in if reason = js ''io server disconnect'' then scheduleReconnection s1
         else if reason = js ''io client disconnect'' then s1
         else scheduleReconnection s1)"

definition on_connect_error :: "jsstring \<Rightarrow> chat_store \<Rightarrow> effect list \<times> chat_store" where
  "on_connect_error msg s =
     (let s0 = setConnected False s;
          (fx, s1) =
            (if js_includes msg (js ''Authentication'')
             then ([ToastError (js ''Authentication failed. Please login again.'')],
                   setError (js ''Authentication failed. Please login again.'') s0)
             else if js_includes msg (js ''timeout'')
             then ([ToastError (js ''Connection timeout. Check your network.'')],
                   setError (js ''Connection timeout. Check your network.'') s0)
             else ([], setError (js ''Connection failed: '' @ msg) s0))
      in if connectionRetries s1 < maxRetries then (fx, scheduleReconnection s1)
         else (fx @ [ToastError (js ''Unable to connect to chat server. Using fallback mode.'')],
               s1))"

definition on_connected :: "chat_store \<Rightarrow> chat_store" where
  "on_connected s = clearError (setConnected True s)"

definition on_error :: "jsstring option \<Rightarrow> chat_store \<Rightarrow> effect list \<times> chat_store" where
  "on_error msg s =
     (let m = (case msg of None \<Rightarrow> js ''Socket error occurred'' | Some [] \<Rightarrow> js ''Socket error occurred''
                 | Some t \<Rightarrow> t);
          m' = (case msg of None \<Rightarrow> js ''Chat error occurred'' | Some [] \<Rightarrow> js ''Chat error occurred''
                 | Some t \<Rightarrow> t)
      in ([ToastError m'], setTyping False (setError m s)))"

datatype connection_status = Connected | Reconnecting | Failed | Disconnected


subsection \<open>Sending\<close>

text \<open>
  What an \<^verbatim>\<open>async\<close> send has returned so far: \<open>Suspended\<close> is the promise still waiting
  for \<^verbatim>\<open>apiService.sendMessage\<close>; it settles in \<open>sendMessage_resolved\<close> or
  \<open>sendMessage_rejected\<close>.
\<close>

datatype send_result = Success | Failure jsstring | Suspended

text \<open>
  \<^verbatim>\<open>sendMessage(message, conversationId)\<close> up to its \<^verbatim>\<open>await\<close>: the only rejection is
  the blank message; otherwise the optimistic message is added and the request issued.
\<close>

definition sendMessage_start ::
  "nat \<Rightarrow> jsstring \<Rightarrow> nat option \<Rightarrow> chat_store \<Rightarrow> send_result \<times> effect list \<times> chat_store" where
  "sendMessage_start now msg conversationId s =
     (if trim msg = [] then (Failure (js ''Empty message''), [ToastError (js ''Please enter a message'')], s)
      else
        (let s1 = addMessage now (tempUserMessage now msg) (clearError s);
             target = (case conversationId of
                         Some i \<Rightarrow> Some i
                       | None \<Rightarrow> map_option conv_id (currentConversation s1))
         in (Suspended, [ApiSendMessage (trim msg) target], s1)))"

text \<open>
  The body of the response: \<^verbatim>\<open>{conversation, userMessage}\<close> under
  \<^verbatim>\<open>res.data.success && res.data.data\<close>, or anything else (which throws inside the
  \<^verbatim>\<open>try\<close> and ends in its \<^verbatim>\<open>catch\<close>, with no \<^verbatim>\<open>err.response\<close>).
\<close>

datatype api_response = ApiData conversation "message option" | ApiInvalid

text \<open>A rejected request: no response at all, or a status with the body's \<^verbatim>\<open>error\<close>.\<close>

datatype api_error = NoResponse | HttpError nat "jsstring option"

definition sendMessage_rejected :: "api_error \<Rightarrow> chat_store \<Rightarrow> send_result \<times> effect list \<times> chat_store" where
  "sendMessage_rejected err s =
     (let errorMessage = (case err of
                            HttpError st (Some (x # xs)) \<Rightarrow> x # xs
                          | _ \<Rightarrow> js ''Failed to send message'');
          s1 = setError errorMessage (removeTemp s);
          fx = (case err of
                  NoResponse \<Rightarrow> [ToastError (js ''Server error. Please try again later.'')]
                | HttpError st b \<Rightarrow>
                    if st = 401 then []
                    else if st \<ge> 500 then [ToastError (js ''Server error. Please try again later.'')]
                    else [ToastError errorMessage])
      in (Failure errorMessage, fx, s1))"

text \<open>
  The continuation of \<^verbatim>\<open>sendMessage\<close> after the response; \<open>conversationId\<close> is the
  parameter the call was made with.
\<close>

definition sendMessage_resolved ::
  "nat option \<Rightarrow> api_response \<Rightarrow> chat_store \<Rightarrow> send_result \<times> effect list \<times> chat_store" where
  "sendMessage_resolved conversationId res s =
     (case res of
        ApiInvalid \<Rightarrow> sendMessage_rejected NoResponse s
      | ApiData conv um \<Rightarrow>
          (let s1 = removeTemp s;
               s2 = (case currentConversation s1 of
                       None \<Rightarrow>
                         (let s' = setCurrentConversation (Some conv) s1
                          in if list_ex (\<lambda>c. conv_id c = conv_id conv) (conversations s')
                             then s' else addConversation conv s')
                     | Some cur \<Rightarrow>
                         if conv_id cur \<noteq> conv_id conv
                         then (let s' = setCurrentConversation (Some conv) s1
                               in if list_ex (\<lambda>c. conv_id c = conv_id conv) (conversations s')
                                  then s' else addConversation conv s')
                         else s1\<lparr>currentConversation :=
                                   Some (cur\<lparr>conv_messages := conv_messages conv,
                                              lastActivity := lastActivity conv\<rparr>),
                                 messages := conv_messages conv\<rparr>);
               s3 = (if um \<noteq> None \<and> conversationId = None \<and> title conv \<noteq> []
                     then updateConversationTitle (title conv) s2 else s2)
           in (Success, [], s3)))"

text \<open>
  \<^verbatim>\<open>sendMessageViaSocket(message, conversationId)\<close>. On a connected socket the optimistic
  message is added, \<^verbatim>\<open>newMessage\<close> emitted, the 10 s timer started and a
  \<^verbatim>\<open>once('messageSent')\<close> listener registered that clears it. The \<^verbatim>\<open>catch\<close> around
  these steps is left out: none of them throws on a connected socket.
\<close>

definition sendMessageViaSocket ::
  "nat \<Rightarrow> env \<Rightarrow> jsstring \<Rightarrow> nat option \<Rightarrow> chat_store \<Rightarrow> send_result \<times> effect list \<times> chat_store" where
  "sendMessageViaSocket now e msg conversationId s =
     (if trim msg = [] then (Failure (js ''Empty message''), [ToastError (js ''Please enter a message'')], s)
      else case socket s of
        None \<Rightarrow> sendMessage_start now msg conversationId s
      | Some k \<Rightarrow>
          if \<not> connected k then sendMessage_start now msg conversationId s
          else
            (let s1 = addMessage now (tempUserMessage now msg) s;
                 target = (case conversationId of
                             Some i \<Rightarrow> Some i
                           | None \<Rightarrow> map_option conv_id (currentConversation s1));
                 (h, s2) = setTimeout (SocketTimeout msg conversationId) s1;
                 s3 = s2\<lparr>socket := Some (k\<lparr>once_messageSent := once_messageSent k @ [h]\<rparr>)\<rparr>
             in (Success, [EmitNewMessage (trim msg) target (user e)], s3)))"

text \<open>
  The callback of the 10 s timer: the pending messages are removed and the message goes
  through \<^verbatim>\<open>sendMessage\<close>, whose promise nobody awaits.
\<close>

definition socketTimeout_fired ::
  "nat \<Rightarrow> jsstring \<Rightarrow> nat option \<Rightarrow> chat_store \<Rightarrow> effect list \<times> chat_store" where
  "socketTimeout_fired now msg conversationId s =
     snd (sendMessage_start now msg conversationId (removeTemp s))"

text \<open>The \<^verbatim>\<open>once('messageSent')\<close> listeners: each clears its timer, all are dropped.\<close>

definition once_listeners :: "chat_store \<Rightarrow> chat_store" where
  "once_listeners s =
     (case socket s of
        None \<Rightarrow> s
      | Some k \<Rightarrow> (fold clearTimeout (once_messageSent k) s)
                    \<lparr>socket := Some (k\<lparr>once_messageSent := []\<rparr>)\<rparr>)"

subsection \<open>Opening and closing the socket\<close>

definition disconnectSocket :: "chat_store \<Rightarrow> effect list \<times> chat_store" where
  "disconnectSocket s =
     (let s1 = clearHeartbeat s;
          s2 = (case reconnectTimeout s1 of
                  None \<Rightarrow> s1
                | Some h \<Rightarrow> (clearTimeout h s1)\<lparr>reconnectTimeout := None\<rparr>)
      in case socket s2 of
           None \<Rightarrow> ([], s2)
         | Some k \<Rightarrow> ([SocketClose],
                      (setTyping False (setConnected False (s2\<lparr>socket := None\<rparr>)))
                        \<lparr>connectionRetries := 0\<rparr>))"

text \<open>
  \<^verbatim>\<open>connectSocket()\<close>: an existing socket loses its listeners and is closed, and
  \<^verbatim>\<open>io(url, options)\<close> gives a new one that is not yet connected.
\<close>

definition connectSocket :: "env \<Rightarrow> chat_store \<Rightarrow> effect list \<times> chat_store" where
  "connectSocket e s =
     (if \<not> isAuthenticated e then ([], setError (js ''Login required for real-time chat'') s)
      else if socket_connected s then ([], s)
      else
        (let fx = (case socket s of None \<Rightarrow> [] | Some k \<Rightarrow> [SocketClose]);
             s1 = (case socket s of
                     None \<Rightarrow> s
                   | Some k \<Rightarrow> s\<lparr>socket := Some \<lparr>connected = False, once_messageSent = []\<rparr>\<rparr>)
         in if token e = None
            then (fx, setError (js ''No authentication token available'') s1)
            else (fx @ [SocketOpen],
                  s1\<lparr>socket := Some \<lparr>connected = False, once_messageSent = []\<rparr>\<rparr>)))"

text \<open>The manual \<^verbatim>\<open>reconnect()\<close>.\<close>

definition reconnect :: "env \<Rightarrow> chat_store \<Rightarrow> effect list \<times> chat_store" where
  "reconnect e s = connectSocket e (clearError (s\<lparr>connectionRetries := 0\<rparr>))"

subsection \<open>Events\<close>

text \<open>
  What can happen to the store: the socket's events (named as the handlers are registered),
  a timer firing, the callers' method calls, and the settling of the HTTP request (with the
  \<^verbatim>\<open>conversationId\<close> argument its \<^verbatim>\<open>sendMessage\<close> call closed over).
\<close>

datatype event =
    E_connect
  | E_disconnect jsstring
  | E_connect_error jsstring
  | E_connected
  | E_messageSent "message option"
  | E_botMessage "message option"
  | E_botTyping
  | E_botStoppedTyping
  | E_error "jsstring option"
  | E_timer nat
  | Call_sendMessage jsstring "nat option"
  | Call_sendMessageViaSocket jsstring "nat option"
  | Api_resolved "nat option" api_response
  | Api_rejected api_error
  | Call_connectSocket
  | Call_disconnectSocket
  | Call_reconnect

text \<open>
  The library's part of a socket event: \<^verbatim>\<open>connected\<close> is true from \<^verbatim>\<open>connect\<close> on and
  false from \<^verbatim>\<open>disconnect\<close> or \<^verbatim>\<open>connect_error\<close> on.
\<close>

definition set_connected :: "bool \<Rightarrow> chat_store \<Rightarrow> chat_store" where
  "set_connected b s =
     (case socket s of None \<Rightarrow> s | Some k \<Rightarrow> s\<lparr>socket := Some (k\<lparr>connected := b\<rparr>)\<rparr>)"

text \<open>A timeout that fires leaves the table of pending timers; an interval stays.\<close>

definition expire :: "nat \<Rightarrow> chat_store \<Rightarrow> chat_store" where
  "expire h s = s\<lparr>timers := filter (\<lambda>p. fst p \<noteq> h) (timers s)\<rparr>"

definition fire :: "nat \<Rightarrow> env \<Rightarrow> nat \<Rightarrow> chat_store \<Rightarrow> effect list \<times> chat_store" where
  "fire now e h s =
     (case map_of (timers s) h of
        None \<Rightarrow> ([], s)
      | Some (ReconnectTimer d) \<Rightarrow> reconnect_fired e (expire h s)
      | Some (SocketTimeout msg conversationId) \<Rightarrow>
          socketTimeout_fired now msg conversationId (expire h s)
      | Some HeartbeatInterval \<Rightarrow> heartbeat_fired s)"

text \<open>
  One event at time \<open>now\<close> in the browser state \<open>e\<close>. The socket's events reach the
  handlers only while \<^verbatim>\<open>this.socket\<close> holds the socket they were registered on.
\<close>

fun step :: "nat \<Rightarrow> env \<Rightarrow> event \<Rightarrow> chat_store \<Rightarrow> effect list \<times> chat_store" where
  "step now e E_connect s =
     (if socket s = None then ([], s) else on_connect (set_connected True s))"
| "step now e (E_disconnect reason) s =
     (if socket s = None then ([], s) else ([], on_disconnect reason (set_connected False s)))"
| "step now e (E_connect_error msg) s =
     (if socket s = None then ([], s) else on_connect_error msg (set_connected False s))"
| "step now e E_connected s =
     (if socket s = None then ([], s) else ([], on_connected s))"
| "step now e (E_messageSent data) s =
     (if socket s = None then ([], s) else ([], once_listeners (on_messageSent now data s)))"
| "step now e (E_botMessage data) s =
     (if socket s = None then ([], s) else ([], on_botMessage now data s))"
| "step now e E_botTyping s =
     (if socket s = None then ([], s) else ([], setTyping True s))"
| "step now e E_botStoppedTyping s =
     (if socket s = None then ([], s) else ([], setTyping False s))"
| "step now e (E_error msg) s =
     (if socket s = None then ([], s) else on_error msg s)"
| "step now e (E_timer h) s = fire now e h s"
| "step now e (Call_sendMessage msg conversationId) s =
     snd (sendMessage_start now msg conversationId s)"
| "step now e (Call_sendMessageViaSocket msg conversationId) s =
     snd (sendMessageViaSocket now e msg conversationId s)"
| "step now e (Api_resolved conversationId res) s =
     snd (sendMessage_resolved conversationId res s)"
| "step now e (Api_rejected err) s = snd (sendMessage_rejected err s)"
| "step now e Call_connectSocket s = connectSocket e s"
| "step now e Call_disconnectSocket s = disconnectSocket s"
| "step now e Call_reconnect s = reconnect e s"

text \<open>A run: the events in order, each with its time and browser state.\<close>

fun run :: "(nat \<times> env \<times> event) list \<Rightarrow> chat_store \<Rightarrow> chat_store" where
  "run [] s = s"
| "run ((now, e, ev) # evs) s = run evs (snd (step now e ev s))"

fun run_effects :: "(nat \<times> env \<times> event) list \<Rightarrow> chat_store \<Rightarrow> effect list" where
  "run_effects [] s = []"
| "run_effects ((now, e, ev) # evs) s =
     fst (step now e ev s) @ run_effects evs (snd (step now e ev s))"

text \<open>Whether a reconnection timer is pending.\<close>

fun is_reconnect :: "timer \<Rightarrow> bool" where
  "is_reconnect (ReconnectTimer d) = True"
| "is_reconnect t = False"

definition retry_pending :: "chat_store \<Rightarrow> bool" where
  "retry_pending s = list_ex (\<lambda>p. is_reconnect (snd p)) (timers s)"

subsection \<open>Reading a step's outcome\<close>

definition result_of :: "send_result \<times> effect list \<times> chat_store \<Rightarrow> send_result" where
  "result_of r = fst r"

definition effects_of :: "send_result \<times> effect list \<times> chat_store \<Rightarrow> effect list" where
  "effects_of r = fst (snd r)"

definition store_of :: "send_result \<times> effect list \<times> chat_store \<Rightarrow> chat_store" where
  "store_of r = snd (snd r)"

text \<open>The pending (optimistic) messages of the list.\<close>

definition pending :: "chat_store \<Rightarrow> message list" where
  "pending s = filter temp (messages s)"

text \<open>A store with the conversation \<open>c\<close> open, as \<^verbatim>\<open>setCurrentConversation\<close> leaves it.\<close>

definition store_with :: "conversation \<Rightarrow> chat_store" where
  "store_with c = setCurrentConversation (Some c) initial_store"

section \<open>The message router (chatController.js)\<close>

text \<open>
  The two handlers are modelled by what they do to the outside, in order: emissions on
  the socket, the call of the completion service, successful saves and the HTTP response.
\<close>

datatype server_event =
    BotTyping "nat option"
  | BotStoppedTyping "nat option"
  | MessageSent message
  | BotMessage message metadata
  | ErrorEvent jsstring

text \<open>The \<^verbatim>\<open>metadata\<close> of the HTTP answer: the service's, or \<^verbatim>\<open>{ aiError: true }\<close>.\<close>

datatype response_metadata = AiMetadata metadata | AiError

datatype http_response =
    Rejected nat jsstring
  | Sent conversation message message response_metadata

datatype server_effect =
    ToRoom nat server_event
  | ToSender server_event
  | CallProvider jsstring "message list"
  | Save conversation
  | Respond http_response

text \<open>What \<^verbatim>\<open>generateResponse\<close> resolves to (the reply's text taken to be a string).\<close>

record ai_response =
  response :: jsstring
  ai_metadata :: metadata

text \<open>What \<^verbatim>\<open>client.chat.completions.create\<close> can throw: an API error with its
  \<^verbatim>\<open>status\<close> and \<^verbatim>\<open>retry-after\<close> header, the abort of the 30 s timeout, anything else.\<close>

datatype openai_error = StatusError nat "nat option" | AbortError | OtherError

text \<open>The answer of \<^verbatim>\<open>Conversation.findOne\<close>; a rejected query throws.\<close>

datatype lookup = Found conversation | NotFound | QueryFailed

text \<open>
  What surrounds one run of a handler: the completion service, the store's answers
  (\<open>findOne\<close> by conversation id and owner, whether the \<open>k\<close>-th \<^verbatim>\<open>save()\<close> of the run
  succeeds, whether \<^verbatim>\<open>populate\<close> does), the clock when the message arrives (\<open>now0\<close>) and
  after the service has answered (\<open>now1\<close>), and the ids a new document gets.
\<close>

record server_env =
  provider :: "jsstring \<Rightarrow> message list \<Rightarrow> openai_error + ai_response"
  findOne :: "nat option \<Rightarrow> nat \<Rightarrow> lookup"
  save_ok :: "nat \<Rightarrow> bool"
  populate_ok :: bool
  now0 :: nat
  now1 :: nat
  new_id :: nat
  new_session :: nat

text \<open>\<^verbatim>\<open>xs.slice(-n)\<close>.\<close>

definition slice_last :: "nat \<Rightarrow> 'a list \<Rightarrow> 'a list" where
  "slice_last n xs = drop (length xs - n) xs"

definition new_conversation :: "server_env \<Rightarrow> nat \<Rightarrow> jsstring \<Rightarrow> conversation" where
  "new_conversation env uid msg = \<lparr> conv_id = new_id env, userId = uid,
     sessionId = new_session env,
     title = take 50 msg @ (if length msg > 50 then js ''...'' else []),
     conv_messages = [], status = Active, lastActivity = now0 env \<rparr>"

definition push :: "message \<Rightarrow> conversation \<Rightarrow> conversation" where
  "push m c = c\<lparr>conv_messages := conv_messages c @ [m]\<rparr>"

definition botMessage :: "nat \<Rightarrow> ai_response \<Rightarrow> message" where
  "botMessage now ai = \<lparr> sender = Bot, content = response ai, timestamp = now,
     messageType = Text, metadata = Some (ai_metadata ai), temp = False, temp_id = None \<rparr>"

definition apology :: jsstring where
  "apology = js ''I apologize, but I'm currently experiencing technical difficulties. Please try again in a moment.''"

definition errorMessage :: "nat \<Rightarrow> message" where
  "errorMessage now = \<lparr> sender = Bot, content = apology, timestamp = now,
     messageType = Text, metadata = Some ErrorMeta, temp = False, temp_id = None \<rparr>"

subsection \<open>The HTTP handler \<^verbatim>\<open>sendMessage\<close>\<close>

text \<open>
  The \<^verbatim>\<open>catch (aiError)\<close> branch, entered with the document \<open>c\<close> after \<open>k\<close> saves: the
  document is saved, the apology pushed, the document saved again. A save that fails
  here throws to the outer \<^verbatim>\<open>catch\<close>.
\<close>

definition http_aiError :: "server_env \<Rightarrow> nat \<Rightarrow> conversation \<Rightarrow> message \<Rightarrow> server_effect list" where
  "http_aiError env k c um =
     (let c1 = c\<lparr>lastActivity := now1 env\<rparr>
      in if \<not> save_ok env k then [Respond (Rejected 500 (js ''SEND_MESSAGE_ERROR''))]
         else Save c1 #
           (let c2 = push (errorMessage (now1 env)) c1
            in if \<not> save_ok env (Suc k) then [Respond (Rejected 500 (js ''SEND_MESSAGE_ERROR''))]
               else [Save c2, Respond (Sent c2 um (errorMessage (now1 env)) AiError)]))"

definition http_sendMessage :: "server_env \<Rightarrow> nat \<Rightarrow> jsstring \<Rightarrow> nat option \<Rightarrow> server_effect list" where
  "http_sendMessage env uid msg conversationId =
     (if trim msg = [] then [Respond (Rejected 400 (js ''EMPTY_MESSAGE''))]
      else if length msg > 4000 then [Respond (Rejected 400 (js ''MESSAGE_TOO_LONG''))]
      else
        case (case conversationId of
                Some i \<Rightarrow> findOne env (Some i) uid
              | None \<Rightarrow> Found (new_conversation env uid msg)) of
          QueryFailed \<Rightarrow> [Respond (Rejected 500 (js ''SEND_MESSAGE_ERROR''))]
        | NotFound \<Rightarrow> [Respond (Rejected 404 (js ''CONVERSATION_NOT_FOUND''))]
        | Found c \<Rightarrow>
            (let um = userMessage (now0 env) msg;
                 c1 = push um c;
                 history = slice_last 10 (conv_messages c1)
             in CallProvider msg history #
                (case provider env msg history of
                   Inl err \<Rightarrow> http_aiError env 0 c1 um
                 | Inr ai \<Rightarrow>
                     (let bm = botMessage (now1 env) ai;
                          c2 = (push bm c1)\<lparr>lastActivity := now1 env\<rparr>
                      in if \<not> save_ok env 0 then http_aiError env 1 c2 um
                         else Save c2 #
                           (if \<not> populate_ok env then http_aiError env 1 c2 um
                            else [Respond (Sent c2 um bm (AiMetadata (ai_metadata ai)))])))))"

subsection \<open>The socket handler \<^verbatim>\<open>handleNewMessage\<close>\<close>

definition socket_aiError ::
  "server_env \<Rightarrow> nat \<Rightarrow> nat \<Rightarrow> nat option \<Rightarrow> conversation \<Rightarrow> server_effect list" where
  "socket_aiError env k uid conversationId c =
     ToRoom uid (BotStoppedTyping conversationId) #
       (let c1 = push (errorMessage (now1 env)) c
        in if \<not> save_ok env k then [ToSender (ErrorEvent (js ''Failed to process message''))]
           else [Save c1, ToSender (BotMessage (errorMessage (now1 env)) ErrorMeta)])"

definition handleNewMessage :: "server_env \<Rightarrow> nat \<Rightarrow> jsstring \<Rightarrow> nat option \<Rightarrow> server_effect list" where
  "handleNewMessage env uid msg conversationId =
     ToRoom uid (BotTyping conversationId) #
       (case findOne env conversationId uid of
          QueryFailed \<Rightarrow> [ToSender (ErrorEvent (js ''Failed to process message''))]
        | r \<Rightarrow>
            (let c = (case r of Found c' \<Rightarrow> c' | _ \<Rightarrow> new_conversation env uid msg);
                 um = userMessage (now0 env) msg;
                 c1 = push um c
             in ToSender (MessageSent um) # CallProvider msg (conv_messages c1) #
                (case provider env msg (conv_messages c1) of
                   Inl err \<Rightarrow> socket_aiError env 0 uid conversationId c1
                 | Inr ai \<Rightarrow>
                     (let bm = botMessage (now1 env) ai;
                          c2 = (push bm c1)\<lparr>lastActivity := now1 env\<rparr>
                      in if \<not> save_ok env 0 then socket_aiError env 1 uid conversationId c2
                         else [Save c2, ToRoom uid (BotStoppedTyping conversationId),
                               ToSender (BotMessage bm (ai_metadata ai))]))))"

text \<open>
  The \<^verbatim>\<open>newMessage\<close> listener of the server: an unauthenticated socket gets an
  \<^verbatim>\<open>error\<close> event, otherwise the handler runs with the socket's own user id.
\<close>

definition on_newMessage ::
  "server_env \<Rightarrow> bool \<Rightarrow> nat \<Rightarrow> jsstring \<Rightarrow> nat option \<Rightarrow> server_effect list" where
  "on_newMessage env authenticated uid msg conversationId =
     (if \<not> authenticated then [ToSender (ErrorEvent (js ''Not authenticated''))]
      else handleNewMessage env uid msg conversationId)"

text \<open>What a run left in the store (its last successful save), and the saves that
  precede the \<^verbatim>\<open>messageSent\<close> emission.\<close>

fun saves :: "server_effect list \<Rightarrow> conversation list" where
  "saves [] = []"
| "saves (Save c # fx) = c # saves fx"
| "saves (x # fx) = saves fx"

definition stored :: "server_effect list \<Rightarrow> conversation option" where
  "stored fx = (case saves fx of [] \<Rightarrow> None | cs \<Rightarrow> Some (last cs))"

fun is_messageSent :: "server_effect \<Rightarrow> bool" where
  "is_messageSent (ToSender (MessageSent m)) = True"
| "is_messageSent x = False"

definition saved_before_messageSent :: "server_effect list \<Rightarrow> conversation list" where
  "saved_before_messageSent fx = saves (takeWhile (\<lambda>x. \<not> is_messageSent x) fx)"

section \<open>The completion service (openaiService.js)\<close>

text \<open>The keyword replies of \<^verbatim>\<open>getMockResponse\<close>, in the order of its \<^verbatim>\<open>else if\<close> chain.\<close>

definition mock_replies :: "(jsstring list \<times> jsstring) list" where
  "mock_replies =
     [([js ''hello'', js ''hi'', js ''hey''],
       [55357, 56395] @
       js '' Hello! Welcome to our customer support. How can I assist you today?''),
      ([js ''help'', js ''support''],
       js ''I'm here to help! You can ask me about:'' @ [10, 8226] @
       js '' Account issues and login problems'' @ [10, 8226] @
       js '' Product information and pricing'' @ [10, 8226] @
       js '' Technical support and troubleshooting'' @ [10, 8226] @
       js '' Billing and subscription questions'' @ [10, 10] @
       js ''What can I help you with?''),
      ([js ''price'', js ''cost'', js ''billing''],
       [55357, 56496] @
       js '' For detailed pricing information, please visit our pricing page or'' @
       js '' contact our sales team at sales@company.com. We offer flexible plans'' @
       js '' to suit different needs!''),
      ([js ''account'', js ''login'', js ''password''],
       [55357, 56592] @ js '' For account-related issues:'' @ [10, 8226] @
       js '' Reset password: Use '' @ [34] @ js ''Forgot Password'' @ [34] @
       js '' on the login page'' @ [10, 8226] @ js '' Account locked: Contact support'' @
       [10, 8226] @ js '' Profile updates: Check your account settings'' @ [10, 10] @
       js ''Need more help? Contact our support team!''),
      ([js ''bug'', js ''error'', js ''problem''],
       [55357, 56347] @
       js '' I understand you're experiencing technical difficulties. To help'' @
       js '' resolve this:'' @ [10] @ js ''1. Try refreshing the page'' @ [10] @
       js ''2. Clear your browser cache'' @ [10] @ js ''3. Check your internet connection'' @
       [10] @ js ''4. Contact our tech team with specific error details'' @ [10, 10] @
       js ''What specific issue are you encountering?''),
      ([js ''cancel'', js ''unsubscribe''],
       [10060] @ js '' To cancel your subscription:'' @ [10] @
       js ''1. Go to Account Settings'' @ [10] @ js ''2. Select '' @ [34] @
       js ''Subscription'' @ [34, 10] @ js ''3. Click '' @ [34] @
       js ''Cancel Subscription'' @ [34, 10, 10] @
       js ''Or contact our support team for assistance. We'd love to know how we'' @
       js '' can improve!''),
      ([js ''contact'', js ''phone'', js ''email''],
       [55357, 56542] @ js '' You can reach us:'' @ [10, 8226] @
       js '' Chat: Right here with me!'' @ [10, 8226] @ js '' Email: support@company.com'' @
       [10, 8226] @ js '' Phone: 1-800-SUPPORT (Mon-Fri, 9 AM - 6 PM EST)'' @ [10, 8226] @
       js '' Help Center: Visit our FAQ section'' @ [10, 10] @
       js ''I'm available 24/7 for immediate assistance!''),
      ([js ''hours'', js ''time'', js ''available''],
       [55357, 56658] @ js '' Our support hours:'' @ [10, 8226] @
       js '' Chat Support: 24/7 (that's me!)'' @ [10, 8226] @
       js '' Phone Support: Monday-Friday, 9 AM - 6 PM EST'' @ [10, 8226] @
       js '' Email Support: We respond within 24 hours'' @ [10, 10] @
       js ''How can I help you right now?''),
      ([js ''thank'', js ''thanks''],
       [55357, 56842] @
       js '' You're very welcome! I'm glad I could help. Is there anything else'' @
       js '' you need assistance with today?'')]"

definition issues_text :: "jsstring \<Rightarrow> jsstring" where
  "issues_text errType =
     js ''I apologize, but our AI service is currently experiencing issues ('' @ errType @
     js ''). However, I'm here to help with some basic information!''"

definition default_text :: "jsstring \<Rightarrow> jsstring" where
  "default_text userMsg =
     js ''Thank you for your question! While I don't have specific information'' @
     js '' about '' @ [34] @
     userMsg @
     [34] @
     js '' right now, I'd be happy to connect you with our support team who can'' @
     js '' provide more detailed assistance.'' @ [10, 10, 55357, 56551] @
     js '' Email: support@company.com'' @ [10, 55357, 56492] @
     js '' Or continue chatting here - I might be able to help with other'' @
     js '' questions!''"

text \<open>
  The reply text: the first keyword group with a keyword in the lower-cased message
  decides; without a match it is the text about the service's issues when an
  \<^verbatim>\<open>errorType\<close> was given, and the default text otherwise.
\<close>

fun keyword_reply :: "jsstring \<Rightarrow> (jsstring list \<times> jsstring) list \<Rightarrow> jsstring option" where
  "keyword_reply lowerMessage [] = None"
| "keyword_reply lowerMessage ((kws, txt) # rest) =
     (if list_ex (js_includes lowerMessage) kws then Some txt
      else keyword_reply lowerMessage rest)"

definition mock_text :: "jsstring \<Rightarrow> jsstring option \<Rightarrow> jsstring" where
  "mock_text userMsg errType =
     (case keyword_reply (toLowerCase userMsg) mock_replies of
        Some txt \<Rightarrow> txt
      | None \<Rightarrow>
          (case errType of
             None \<Rightarrow> default_text userMsg
           | Some t \<Rightarrow> if t = [] then default_text userMsg else issues_text t))"

definition getMockResponse :: "jsstring \<Rightarrow> jsstring option \<Rightarrow> ai_response" where
  "getMockResponse userMsg errType =
     \<lparr> response = mock_text userMsg errType,
       ai_metadata = ProviderMeta (js ''mock-response'')
         (length (mock_text userMsg errType)) 7 True True errType \<rparr>"

text \<open>The knowledge base of \<^verbatim>\<open>getRelevantContext\<close>: question, answer, keywords.\<close>

definition knowledgeBase :: "(jsstring \<times> jsstring \<times> jsstring list) list" where
  "knowledgeBase =
     [(js ''What are your support hours?'',
       js ''Our chat support is available 24/7. Phone support is Monday-Friday, 9'' @
       js '' AM to 6 PM EST.'',
       [js ''support'', js ''hours'', js ''availability'', js ''time'', js ''phone'', js ''chat'']),
      (js ''How can I reset my password?'',
       js ''You can reset your password by clicking '' @ [39] @ js ''Forgot Password'' @
       [39] @ js '' on the login page, or contact support for assistance.'',
       [js ''password'', js ''reset'', js ''forgot'', js ''login'', js ''account'']),
      (js ''How do I contact support?'',
       js ''You can contact support through this chat system, email'' @
       js '' support@company.com, or call us at 1-800-SUPPORT.'',
       [js ''contact'', js ''support'', js ''email'', js ''help'', js ''phone'', js ''call'']),
      (js ''What payment methods do you accept?'',
       js ''We accept major credit cards (Visa, MasterCard, American Express),'' @
       js '' PayPal, and bank transfers.'',
       [js ''payment'', js ''credit card'', js ''paypal'', js ''billing'', js ''pay'']),
      (js ''How do I cancel my subscription?'',
       js ''You can cancel your subscription from your account settings or'' @
       js '' contact our support team for assistance.'',
       [js ''cancel'', js ''subscription'', js ''account'', js ''unsubscribe'']),
      (js ''Is there a mobile app available?'',
       js ''Yes, our mobile app is available for iOS and Android devices. You can'' @
       js '' download it from the App Store or Google Play.'',
       [js ''mobile'', js ''app'', js ''ios'', js ''android'', js ''download''])]"

text \<open>
  \<^verbatim>\<open>getRelevantContext\<close>: the first three entries with a keyword in the lower-cased
  message, written out and numbered from 1, or \<^verbatim>\<open>null\<close> when there is none.
\<close>

fun context_lines :: "nat \<Rightarrow> (jsstring \<times> jsstring \<times> jsstring list) list \<Rightarrow> jsstring" where
  "context_lines i [] = []"
| "context_lines i ((q, a, kws) # rest) =
     [49 + i] @ js ''. Q: '' @ q @ [10] @ js ''   A: '' @ a @ [10, 10] @ context_lines (Suc i) rest"

definition getRelevantContext :: "jsstring \<Rightarrow> jsstring option" where
  "getRelevantContext userMsg =
     (let searchTerms = toLowerCase userMsg;
          relevantEntries =
            take 3 (filter (\<lambda>entry. list_ex (\<lambda>keyword. js_includes searchTerms (toLowerCase keyword))
                                       (snd (snd entry))) knowledgeBase)
      in if relevantEntries = [] then None
         else Some (js ''Relevant company information:'' @ [10] @ context_lines 0 relevantEntries))"

definition systemPrompt :: jsstring where
  "systemPrompt =
     js ''You are a helpful customer support assistant. Provide accurate,'' @
     js '' polite, and concise responses based on the available company'' @
     js '' information. If you don't have specific information about a topic,'' @
     js '' politely direct the user to contact support directly.''"

text \<open>The state of the service object, and the bound on its failures.\<close>

record service =
  useMockResponse :: bool
  rateLimitedUntil :: "nat option"
  failureCount :: nat

definition maxFailures :: nat where
  "maxFailures = 3"

datatype role = System | RoleUser | Assistant

text \<open>What the API resolves to: the first choice's content if there is a choice, the
  model's name and the usage's \<^verbatim>\<open>total_tokens\<close> if present.\<close>

record completion =
  choice :: "jsstring option"
  completion_model :: jsstring
  total_tokens :: "nat option"

text \<open>The chat messages sent to the API: the system prompt with the context, the last
  ten messages of the history that have a sender and a content, the user's message.\<close>

definition chat_messages :: "jsstring \<Rightarrow> message list \<Rightarrow> (role \<times> jsstring) list" where
  "chat_messages userMsg conversationHistory =
     (System, systemPrompt @
        (case getRelevantContext userMsg of
           None \<Rightarrow> []
         | Some c \<Rightarrow> if c = [] then []
                     else [10, 10] @ js ''Relevant information:'' @ [10] @ c))
     # map (\<lambda>m. (if sender m = User then RoleUser else Assistant, content m))
           (filter (\<lambda>m. content m \<noteq> []) (slice_last 10 conversationHistory))
     @ [(RoleUser, userMsg)]"

text \<open>
  The \<^verbatim>\<open>catch\<close> of \<^verbatim>\<open>generateResponse\<close>, by the error caught; a missing choice is
  the \<^verbatim>\<open>Error('No response from OpenAI')\<close> thrown inside the \<^verbatim>\<open>try\<close>.
\<close>

definition on_openai_error ::
  "service \<Rightarrow> nat \<Rightarrow> jsstring \<Rightarrow> openai_error \<Rightarrow> service \<times> (openai_error + ai_response)" where
  "on_openai_error svc now userMsg err =
     (case err of
        StatusError st retry \<Rightarrow>
          if st = 401
          then (svc\<lparr>useMockResponse := True\<rparr>,
                Inr (getMockResponse userMsg (Some (js ''Invalid API key''))))
          else if st = 429
          then (svc\<lparr>rateLimitedUntil :=
                      Some (now + (case retry of None \<Rightarrow> 60 | Some r \<Rightarrow> r) * 1000)\<rparr>,
                Inr (getMockResponse userMsg (Some (js ''Rate limit exceeded''))))
          else if st = 500 \<or> st = 502 \<or> st = 503
          then (svc\<lparr>failureCount := failureCount svc + 1\<rparr>,
                Inr (getMockResponse userMsg (Some (js ''Service unavailable''))))
          else (svc\<lparr>failureCount := failureCount svc + 1\<rparr>,
                Inr (getMockResponse userMsg (Some (js ''Service error''))))
      | AbortError \<Rightarrow> (svc, Inr (getMockResponse userMsg (Some (js ''Request timeout''))))
      | OtherError \<Rightarrow>
          (svc\<lparr>failureCount := failureCount svc + 1\<rparr>,
           Inr (getMockResponse userMsg (Some (js ''Service error'')))))"

text \<open>
  \<^verbatim>\<open>generateResponse(userMessage, conversationHistory)\<close> at time \<open>now\<close>, with \<open>api\<close> for
  \<^verbatim>\<open>client.chat.completions.create\<close>. The result is a sum so that a rejection of the
  promise would show as \<open>Inl\<close>.
\<close>

definition generateResponse ::
  "service \<Rightarrow> nat \<Rightarrow> ((role \<times> jsstring) list \<Rightarrow> openai_error + completion) \<Rightarrow>
   jsstring \<Rightarrow> message list \<Rightarrow> service \<times> (openai_error + ai_response)" where
  "generateResponse svc now api userMsg conversationHistory =
     (if (case rateLimitedUntil svc of None \<Rightarrow> False | Some u \<Rightarrow> now < u)
      then (svc, Inr (getMockResponse userMsg (Some (js ''Rate limited''))))
      else if useMockResponse svc \<or> failureCount svc \<ge> maxFailures
      then (svc, Inr (getMockResponse userMsg None))
      else
        case api (chat_messages userMsg conversationHistory) of
          Inl err \<Rightarrow> on_openai_error svc now userMsg err
        | Inr res \<Rightarrow>
            (case choice res of
               None \<Rightarrow> on_openai_error svc now userMsg OtherError
             | Some txt \<Rightarrow>
                 (svc\<lparr>failureCount := 0, rateLimitedUntil := None\<rparr>,
                  Inr \<lparr> response = txt,
                        ai_metadata = ProviderMeta (completion_model res)
                          (case total_tokens res of None \<Rightarrow> 0 | Some n \<Rightarrow> n)
                          (if getRelevantContext userMsg = None then 5 else 8)
                          (getRelevantContext userMsg \<noteq> None) False None \<rparr>)))"

text \<open>The service as the router sees it: the promise's outcome.\<close>

definition openai_provider ::
  "service \<Rightarrow> nat \<Rightarrow> ((role \<times> jsstring) list \<Rightarrow> openai_error + completion) \<Rightarrow>
   jsstring \<Rightarrow> message list \<Rightarrow> openai_error + ai_response" where
  "openai_provider svc now api userMsg conversationHistory =
     snd (generateResponse svc now api userMsg conversationHistory)"

text \<open>A logged-in browser, and the store once its socket is open and connected.\<close>

definition logged_in :: env where
  "logged_in = \<lparr> token = Some (js ''t''), user = Some 1, expired = False \<rparr>"

definition online_store :: "conversation \<Rightarrow> chat_store" where
  "online_store c =
     run [(0, logged_in, Call_connectSocket), (0, logged_in, E_connect)] (store_with c)"

subsection \<open>The retry counter's invariant\<close>

text \<open>The pending reconnection timers, and whether \<open>s'\<close> holds one that \<open>s\<close> did not.\<close>

definition retry_timers :: "chat_store \<Rightarrow> (nat \<times> timer) list" where
  "retry_timers s = filter (\<lambda>p. is_reconnect (snd p)) (timers s)"

definition new_retry :: "chat_store \<Rightarrow> chat_store \<Rightarrow> bool" where
  "new_retry s s' = list_ex (\<lambda>p. p \<notin> set (retry_timers s)) (retry_timers s')"




definition cut_off :: chat_store where
  "cut_off = snd (step 5 logged_in (E_disconnect (js ''transport close''))
                   (online_store (empty_conversation 7)))"

text \<open>The events that bring the initial store online.\<close>

definition going_online :: "(nat \<times> env \<times> event) list" where
  "going_online = [(0, logged_in, Call_connectSocket), (1, logged_in, E_connect)]"

subsection \<open>A timed-out send, end to end\<close>

text \<open>The confirmed (not pending) user messages of a list with the given content.\<close>

definition confirmed_copies :: "jsstring \<Rightarrow> message list \<Rightarrow> nat" where
  "confirmed_copies txt ms =
     length (filter (\<lambda>m. sender m = User \<and> \<not> temp m \<and> content m = txt) ms)"

text \<open>
  A server whose completion service answers, whose store accepts every write and whose
  \<open>findOne\<close> gives \<open>found\<close>, with the clock at \<open>now\<close>.
\<close>

definition sample_reply :: ai_response where
  "sample_reply = \<lparr> response = js ''Hi there'',
     ai_metadata = ProviderMeta (js ''gpt-3.5-turbo'') 12 5 False False None \<rparr>"

definition sample_env :: "lookup \<Rightarrow> nat \<Rightarrow> server_env" where
  "sample_env found now = \<lparr> provider = (\<lambda>m h. Inr sample_reply),
     findOne = (\<lambda>i u. found), save_ok = (\<lambda>k. True), populate_ok = True,
     now0 = now, now1 = now + 1, new_id = 8, new_session = 2 \<rparr>"

text \<open>What the client reads from the HTTP answer, and the \<^verbatim>\<open>messageSent\<close> payloads of a run.\<close>

fun as_api_response :: "server_effect \<Rightarrow> api_response" where
  "as_api_response (Respond (Sent c um bm md)) = ApiData c (Some um)"
| "as_api_response x = ApiInvalid"

fun sent_messages :: "server_effect list \<Rightarrow> message list" where
  "sent_messages [] = []"
| "sent_messages (ToSender (MessageSent m) # fx) = m # sent_messages fx"
| "sent_messages (x # fx) = sent_messages fx"

text \<open>
  The user says Hello in conversation 7 over a connected socket. The server gets to the
  \<^verbatim>\<open>newMessage\<close> event only after the client's 10 s have passed: the fallback request
  is served first (\<open>fallback_run\<close>), the socket's message after it (\<open>late_run\<close>), and
  the client sees the \<^verbatim>\<open>messageSent\<close> of the latter after the HTTP answer.
\<close>

definition fallback_run :: "server_effect list" where
  "fallback_run =
     http_sendMessage (sample_env (Found (empty_conversation 7)) 10002) 1 (js ''Hello'') (Some 7)"

definition late_run :: "server_effect list" where
  "late_run =
     handleNewMessage
       (sample_env (case stored fallback_run of None \<Rightarrow> NotFound | Some c \<Rightarrow> Found c) 10050)
       1 (js ''Hello'') (Some 7)"

definition scenario_D :: "(nat \<times> env \<times> event) list" where
  "scenario_D =
     [(1, logged_in, Call_sendMessageViaSocket (js ''Hello'') (Some 7)),
      (10001, logged_in, E_timer 2),
      (10004, logged_in, Api_resolved (Some 7) (as_api_response (last fallback_run))),
      (10051, logged_in, E_messageSent (Some (hd (sent_messages late_run))))]"


text \<open>The same server with a store that rejects every write.\<close>

definition readonly_env :: "lookup \<Rightarrow> nat \<Rightarrow> server_env" where
  "readonly_env found now = (sample_env found now)\<lparr>save_ok := (\<lambda>k. False)\<rparr>"

text \<open>The reply both handlers append: the service's answer, or the apology.\<close>

definition reply_of :: "server_env \<Rightarrow> openai_error + ai_response \<Rightarrow> message" where
  "reply_of env r =
     (case r of Inl err \<Rightarrow> errorMessage (now1 env) | Inr ai \<Rightarrow> botMessage (now1 env) ai)"

text \<open>The reply a handler delivered: the bot message of the HTTP answer or of the
  \<^verbatim>\<open>botMessage\<close> emission.\<close>

fun delivered :: "server_effect list \<Rightarrow> message list" where
  "delivered [] = []"
| "delivered (Respond (Sent c um bm md) # fx) = bm # delivered fx"
| "delivered (ToSender (BotMessage bm md) # fx) = bm # delivered fx"
| "delivered (x # fx) = delivered fx"

fun provider_calls :: "server_effect list \<Rightarrow> (jsstring \<times> message list) list" where
  "provider_calls [] = []"
| "provider_calls (CallProvider m h # fx) = (m, h) # provider_calls fx"
| "provider_calls (x # fx) = provider_calls fx"

text \<open>
  A server whose completion service is the OpenAI service without an API key, served by
  an API that would fail; \<open>first_ok\<close> says whether the first write of a run is accepted
  (all later ones are).
\<close>

definition no_key :: service where
  "no_key = \<lparr> useMockResponse = True, rateLimitedUntil = None, failureCount = 0 \<rparr>"

definition openai_env :: "bool \<Rightarrow> server_env" where
  "openai_env first_ok = \<lparr> provider = openai_provider no_key 10 (\<lambda>ms. Inl OtherError),
     findOne = (\<lambda>i u. NotFound), save_ok = (\<lambda>k. k \<noteq> 0 \<or> first_ok), populate_ok = True,
     now0 = 10, now1 = 11, new_id = 8, new_session = 2 \<rparr>"

section \<open>Reconciliation\<close>

lemmas eval_defs = setLoading_def setError_def clearError_def setConnected_def setTyping_def
  setCurrentConversation_def addConversation_def addMessage_def updateConversationTitle_def
  removeTemp_def on_messageSent_def on_botMessage_def clearTimeout_def setTimeout_def
  scheduleReconnection_def reconnect_fired_def clearHeartbeat_def setupHeartbeat_def
  heartbeat_fired_def on_connect_def on_disconnect_def on_connect_error_def on_connected_def
  on_error_def sendMessage_start_def sendMessage_rejected_def sendMessage_resolved_def
  sendMessageViaSocket_def socketTimeout_fired_def once_listeners_def disconnectSocket_def
  connectSocket_def reconnect_def set_connected_def expire_def fire_def
  initial_store_def store_with_def online_store_def logged_in_def isAuthenticated_def
  socket_connected_def empty_conversation_def Let_def maxRetries_def backoff_def
  js_def js_includes_def retry_pending_def retry_timers_def new_retry_def


lemma messages_on_messageSent:
  "currentConversation s \<noteq> None \<Longrightarrow>
   messages (on_messageSent now (Some m) s) = filter (\<lambda>x. \<not> temp x) (messages s) @ [m]"
  by (auto simp: on_messageSent_def addMessage_def removeTemp_def split: option.splits)

lemma currentConversation_on_messageSent:
  "currentConversation s \<noteq> None \<Longrightarrow> currentConversation (on_messageSent now data s) \<noteq> None"
  by (auto simp: on_messageSent_def addMessage_def removeTemp_def split: option.splits)

text \<open>
  C1 (counterexample). With a conversation open and one optimistic message in the list,
  handling the same server confirmation twice leaves the confirmed message in the list
  twice.
\<close>

theorem reconcile_twice_counterexample:
  "count_list
     (messages
        (on_messageSent 3 (Some (userMessage 1 (js ''Hello'')))
           (on_messageSent 2 (Some (userMessage 1 (js ''Hello'')))
              (addMessage 0 (tempUserMessage 0 (js ''Hello''))
                 (store_with (empty_conversation 7))))))
     (userMessage 1 (js ''Hello'')) = 2"
  by (simp add: on_messageSent_def addMessage_def removeTemp_def store_with_def
      setCurrentConversation_def initial_store_def tempUserMessage_def userMessage_def
      empty_conversation_def)

text \<open>
  C1 (amended). With a conversation open, handling a server confirmation removes every
  pending message and appends the confirmed message; handling the same (non-pending)
  confirmation a second time appends it once more, so the list ends with two copies
  after what was already confirmed, and no pending message.
\<close>

theorem reconcile_twice_appends_twice:
  assumes "currentConversation s \<noteq> None" and "\<not> temp m"
  shows "messages (on_messageSent t1 (Some m) s) = filter (\<lambda>x. \<not> temp x) (messages s) @ [m]
       \<and> messages (on_messageSent t2 (Some m) (on_messageSent t1 (Some m) s))
           = filter (\<lambda>x. \<not> temp x) (messages s) @ [m, m]
       \<and> pending (on_messageSent t2 (Some m) (on_messageSent t1 (Some m) s)) = []"
proof -
  let ?s1 = "on_messageSent t1 (Some m) s"
  have one: "messages ?s1 = filter (\<lambda>x. \<not> temp x) (messages s) @ [m]"
    using assms(1) by (rule messages_on_messageSent)
  have cur: "currentConversation ?s1 \<noteq> None"
    using assms(1) by (rule currentConversation_on_messageSent)
  have two: "messages (on_messageSent t2 (Some m) ?s1)
      = filter (\<lambda>x. \<not> temp x) (messages ?s1) @ [m]"
    using cur by (rule messages_on_messageSent)
  have "messages (on_messageSent t2 (Some m) ?s1) = filter (\<lambda>x. \<not> temp x) (messages s) @ [m, m]"
    using two one assms(2) by simp
  moreover from this have "pending (on_messageSent t2 (Some m) ?s1) = []"
    using assms(2) by (simp add: pending_def)
  ultimately show ?thesis using one by simp
qed

theorem reconcile_twice_appends_twice_witness:
  "messages
     (on_messageSent 3 (Some (userMessage 1 (js ''Hello'')))
        (on_messageSent 2 (Some (userMessage 1 (js ''Hello'')))
           (addMessage 0 (tempUserMessage 0 (js ''Hello''))
              (store_with (empty_conversation 7)))))
   = [userMessage 1 (js ''Hello''), userMessage 1 (js ''Hello'')]"
proof -
  let ?s = "addMessage 0 (tempUserMessage 0 (js ''Hello'')) (store_with (empty_conversation 7))"
  have c: "currentConversation ?s \<noteq> None"
    by (simp add: addMessage_def store_with_def setCurrentConversation_def)
  have t: "\<not> temp (userMessage 1 (js ''Hello''))"
    by (simp add: userMessage_def)
  have m: "filter (\<lambda>x. \<not> temp x) (messages ?s) = []"
    by (simp add: addMessage_def store_with_def setCurrentConversation_def initial_store_def
        tempUserMessage_def empty_conversation_def)
  show ?thesis
    using reconcile_twice_appends_twice [OF c t, of 2 3] m by simp
qed

section \<open>Optimistic sends\<close>

lemma pending_addMessage:
  "currentConversation s \<noteq> None \<Longrightarrow> temp m \<Longrightarrow> pending (addMessage now m s) = pending s @ [m]"
  by (auto simp: pending_def addMessage_def split: option.splits)

lemma temp_tempUserMessage: "temp (tempUserMessage now msg)"
  by (simp add: tempUserMessage_def)

lemma sendMessage_start_nonblank:
  "trim msg \<noteq> [] \<Longrightarrow>
   sendMessage_start now msg cid s =
     (Suspended,
      [ApiSendMessage (trim msg)
         (case cid of Some i \<Rightarrow> Some i | None \<Rightarrow> map_option conv_id (currentConversation s))],
      addMessage now (tempUserMessage now msg) (clearError s))"
  by (cases "currentConversation s"; cases cid)
     (simp_all add: sendMessage_start_def Let_def addMessage_def clearError_def)

lemma sendMessage_start_pending:
  assumes "trim msg \<noteq> []" and "currentConversation s \<noteq> None"
  shows "pending (store_of (sendMessage_start now msg cid s)) = pending s @ [tempUserMessage now msg]"
proof -
  have "currentConversation (clearError s) \<noteq> None"
    using assms(2) by (simp add: clearError_def)
  then have "pending (addMessage now (tempUserMessage now msg) (clearError s))
      = pending (clearError s) @ [tempUserMessage now msg]"
    by (rule pending_addMessage) (rule temp_tempUserMessage)
  then show ?thesis
    using assms(1) by (simp add: sendMessage_start_nonblank store_of_def pending_def clearError_def)
qed

lemma sendMessageViaSocket_pending:
  assumes "trim msg \<noteq> []" and "currentConversation s \<noteq> None" and "socket_connected s"
  shows "result_of (sendMessageViaSocket now e msg cid s) = Success
       \<and> pending (store_of (sendMessageViaSocket now e msg cid s))
           = pending s @ [tempUserMessage now msg]"
proof -
  from assms(3) obtain k where k: "socket s = Some k" "connected k"
    by (auto simp: socket_connected_def split: option.splits)
  from assms(2) obtain c where c: "currentConversation s = Some c" by auto
  show ?thesis
    using assms(1) k c
    by (simp add: sendMessageViaSocket_def Let_def setTimeout_def addMessage_def
        result_of_def store_of_def pending_def tempUserMessage_def)
qed

text \<open>
  C2 (counterexample). With one optimistic message still pending, a second
  \<^verbatim>\<open>sendMessage\<close> is not rejected: it proceeds to its request and the list then holds two
  pending messages.
\<close>

theorem second_send_counterexample:
  "result_of (sendMessage_start 2 (js ''Again'') None
      (store_of (sendMessage_start 1 (js ''Hello'') None (store_with (empty_conversation 7)))))
     = Suspended
   \<and> length (pending (store_of (sendMessage_start 2 (js ''Again'') None
        (store_of (sendMessage_start 1 (js ''Hello'') None (store_with (empty_conversation 7)))))))
     = 2"
  by (simp add: sendMessage_start_def Let_def addMessage_def clearError_def store_with_def
      setCurrentConversation_def initial_store_def tempUserMessage_def empty_conversation_def
      result_of_def store_of_def pending_def trim_def isWhiteSpace_def js_def)

text \<open>
  C2 (amended). The only send the store rejects is a blank message, which fails with
  \<^verbatim>\<open>Empty message\<close> and leaves the store as it was. Every other send is accepted whatever
  is pending: with a conversation open, \<^verbatim>\<open>sendMessage\<close> adds one more pending message
  and issues its request, and on a connected socket \<^verbatim>\<open>sendMessageViaSocket\<close> adds one
  more pending message and reports success.
\<close>

theorem send_accepted_while_pending:
  "(trim msg = [] \<longrightarrow>
      sendMessage_start now msg cid s
        = (Failure (js ''Empty message''), [ToastError (js ''Please enter a message'')], s)
    \<and> sendMessageViaSocket now e msg cid s
        = (Failure (js ''Empty message''), [ToastError (js ''Please enter a message'')], s))
   \<and> (trim msg \<noteq> [] \<and> currentConversation s \<noteq> None \<longrightarrow>
      result_of (sendMessage_start now msg cid s) = Suspended
    \<and> pending (store_of (sendMessage_start now msg cid s)) = pending s @ [tempUserMessage now msg]
    \<and> (socket_connected s \<longrightarrow>
          result_of (sendMessageViaSocket now e msg cid s) = Success
        \<and> pending (store_of (sendMessageViaSocket now e msg cid s))
            = pending s @ [tempUserMessage now msg]))"
proof (intro conjI impI)
  assume "trim msg = []"
  then show "sendMessage_start now msg cid s
        = (Failure (js ''Empty message''), [ToastError (js ''Please enter a message'')], s)"
    by (simp add: sendMessage_start_def)
next
  assume "trim msg = []"
  then show "sendMessageViaSocket now e msg cid s
        = (Failure (js ''Empty message''), [ToastError (js ''Please enter a message'')], s)"
    by (simp add: sendMessageViaSocket_def)
next
  assume "trim msg \<noteq> [] \<and> currentConversation s \<noteq> None"
  then show "result_of (sendMessage_start now msg cid s) = Suspended"
    by (simp add: sendMessage_start_nonblank result_of_def)
next
  assume "trim msg \<noteq> [] \<and> currentConversation s \<noteq> None"
  then show "pending (store_of (sendMessage_start now msg cid s))
      = pending s @ [tempUserMessage now msg]"
    by (simp add: sendMessage_start_pending)
next
  assume "trim msg \<noteq> [] \<and> currentConversation s \<noteq> None" and "socket_connected s"
  then show "result_of (sendMessageViaSocket now e msg cid s) = Success"
    by (simp add: sendMessageViaSocket_pending)
next
  assume "trim msg \<noteq> [] \<and> currentConversation s \<noteq> None" and "socket_connected s"
  then show "pending (store_of (sendMessageViaSocket now e msg cid s))
      = pending s @ [tempUserMessage now msg]"
    by (simp add: sendMessageViaSocket_pending)
qed

theorem send_accepted_while_pending_witness:
  "sendMessage_start 1 (js ''  '') None (online_store (empty_conversation 7))
     = (Failure (js ''Empty message''), [ToastError (js ''Please enter a message'')],
        online_store (empty_conversation 7))
   \<and> result_of (sendMessageViaSocket 2 logged_in (js ''Again'') None
        (store_of (sendMessage_start 1 (js ''Hello'') None (online_store (empty_conversation 7)))))
     = Success
   \<and> pending (store_of (sendMessageViaSocket 2 logged_in (js ''Again'') None
        (store_of (sendMessage_start 1 (js ''Hello'') None (online_store (empty_conversation 7))))))
     = [tempUserMessage 1 (js ''Hello''), tempUserMessage 2 (js ''Again'')]"
proof -
  let ?s0 = "online_store (empty_conversation 7)"
  let ?s1 = "store_of (sendMessage_start 1 (js ''Hello'') None ?s0)"
  have blank: "trim (js ''  '') = []"
    by (simp add: trim_def isWhiteSpace_def js_def)
  have hello: "trim (js ''Hello'') \<noteq> []" and again: "trim (js ''Again'') \<noteq> []"
    by (simp_all add: trim_def isWhiteSpace_def js_def)
  have cur0: "currentConversation ?s0 \<noteq> None" and none0: "pending ?s0 = []"
    by (simp_all add: going_online_def pending_def eval_defs)
  have on0: "socket_connected ?s0"
    by (simp add: eval_defs)
  have s1: "?s1 = addMessage 1 (tempUserMessage 1 (js ''Hello'')) (clearError ?s0)"
    using hello by (simp add: sendMessage_start_nonblank store_of_def)
  have cur1: "currentConversation ?s1 \<noteq> None"
    using cur0 unfolding s1 by (auto simp: addMessage_def clearError_def)
  have on1: "socket_connected ?s1"
    using on0 unfolding s1
    by (auto simp: addMessage_def clearError_def socket_connected_def split: option.splits)
  note a = send_accepted_while_pending [of "js ''  ''" 1 None ?s0]
  note b = send_accepted_while_pending [of "js ''Hello''" 1 None ?s0]
  note c = send_accepted_while_pending [of "js ''Again''" 2 None ?s1 logged_in]
  from b hello cur0 none0 have p1: "pending ?s1 = [tempUserMessage 1 (js ''Hello'')]"
    by simp
  from c again cur1 on1 have "result_of (sendMessageViaSocket 2 logged_in (js ''Again'') None ?s1)
      = Success"
    and "pending (store_of (sendMessageViaSocket 2 logged_in (js ''Again'') None ?s1))
      = pending ?s1 @ [tempUserMessage 2 (js ''Again'')]"
    by blast+
  then show ?thesis
    using a blank p1 by simp
qed

section \<open>The retry counter\<close>








































lemma cut_off_eq:
  "cut_off = \<lparr>conversations = [],
     currentConversation = Some (empty_conversation 7),
     messages = [], isLoading = False, isConnected = False, isTyping = False,
     error = None, socket = Some \<lparr>connected = False, once_messageSent = []\<rparr>,
     connectionRetries = 1, reconnectTimeout = Some 2,
     heartbeatInterval = None, timers = [(2, ReconnectTimer 1000)], nextHandle = 3\<rparr>"
  by (simp add: cut_off_def eval_defs)









section \<open>Disconnects\<close>






section \<open>Cancelling a scheduled retry\<close>

text \<open>
  C8. The store was cut off by a transport error, so a reconnection timer (handle 2) is
  pending. \<^verbatim>\<open>disconnectSocket()\<close> clears it. The manual \<^verbatim>\<open>reconnect()\<close> opens a new
  socket and leaves the timer pending; when the timer fires before the new socket is
  connected, its callback calls \<^verbatim>\<open>connect()\<close> on that socket once more.
\<close>

theorem manual_reconnect_leaves_retry_pending:
  "retry_pending cut_off
   \<and> \<not> retry_pending (snd (disconnectSocket cut_off))
   \<and> fst (reconnect logged_in cut_off) = [SocketClose, SocketOpen]
   \<and> retry_pending (snd (reconnect logged_in cut_off))
   \<and> fst (step 1005 logged_in (E_timer 2) (snd (reconnect logged_in cut_off))) = [SocketConnect]"
  by (simp add: cut_off_eq eval_defs)

section \<open>The fallback after a timed-out socket send\<close>

lemma hello:
  "trim (js ''Hello'') = js ''Hello''" "js ''Hello'' \<noteq> []" "length (js ''Hello'') = 5"
  by (simp_all add: trim_def isWhiteSpace_def js_def)

lemma empty_conversation_sel:
  "conv_messages (empty_conversation i) = []" "conv_id (empty_conversation i) = i"
  by (simp_all add: empty_conversation_def)

lemma fallback_eval:
  "last fallback_run = Respond (Sent
      ((empty_conversation 7)\<lparr>conv_messages :=
            [userMessage 10002 (js ''Hello''), botMessage 10003 sample_reply],
          lastActivity := 10003\<rparr>)
      (userMessage 10002 (js ''Hello'')) (botMessage 10003 sample_reply)
      (AiMetadata (ai_metadata sample_reply)))"
  "stored fallback_run = Some ((empty_conversation 7)\<lparr>conv_messages :=
            [userMessage 10002 (js ''Hello''), botMessage 10003 sample_reply],
          lastActivity := 10003\<rparr>)"
  by (simp_all add: fallback_run_def http_sendMessage_def hello sample_env_def push_def
      slice_last_def Let_def stored_def empty_conversation_sel)

lemma late_eval: "sent_messages late_run = [userMessage 10050 (js ''Hello'')]"
  by (simp add: late_run_def fallback_eval handleNewMessage_def sample_env_def push_def Let_def)

lemma scenario_eval:
  "messages (run scenario_D (online_store (empty_conversation 7)))
     = [userMessage 10002 (js ''Hello''), botMessage 10003 sample_reply,
        userMessage 10050 (js ''Hello'')]"
  by (simp add: scenario_D_def fallback_eval late_eval hello eval_defs
       userMessage_def botMessage_def tempUserMessage_def)

text \<open>
  C3 (counterexample). In that run the coordinator does clear the pending message and
  resubmit through the fallback, and the fallback's answer replaces the list; the late
  \<^verbatim>\<open>messageSent\<close> is then appended, and the list ends with two confirmed copies of
  the user's message.
\<close>

theorem scenario_D_counterexample:
  "confirmed_copies (js ''Hello'')
     (messages (run scenario_D (online_store (empty_conversation 7)))) = 2"
  by (simp add: scenario_eval confirmed_copies_def userMessage_def botMessage_def hello)

lemma pending_removeTemp: "pending (removeTemp s) = []"
  by (simp add: pending_def removeTemp_def)

lemma messages_resolved:
  "messages (store_of (sendMessage_resolved cid (ApiData conv um) s)) = conv_messages conv"
  "currentConversation (store_of (sendMessage_resolved cid (ApiData conv um) s)) \<noteq> None"
  by (auto simp: sendMessage_resolved_def store_of_def Let_def removeTemp_def
      setCurrentConversation_def addConversation_def updateConversationTitle_def
      split: option.splits)

lemma confirmed_copies_append:
  "confirmed_copies txt (xs @ [m])
     = confirmed_copies txt xs + (if sender m = User \<and> \<not> temp m \<and> content m = txt then 1 else 0)"
  by (simp add: confirmed_copies_def)

lemma confirmed_copies_filter:
  "confirmed_copies txt (filter (\<lambda>x. \<not> temp x) xs) = confirmed_copies txt xs"
  by (induction xs) (auto simp: confirmed_copies_def)

lemma viaSocket_connected:
  assumes "trim msg \<noteq> []" and "socket s = Some k" and "connected k"
    and "currentConversation s = Some c"
  shows "effects_of (sendMessageViaSocket now e msg cid s)
           = [EmitNewMessage (trim msg) (case cid of Some i \<Rightarrow> Some i | None \<Rightarrow> Some (conv_id c))
                (user e)]"
    and "currentConversation (store_of (sendMessageViaSocket now e msg cid s))
           = Some (c\<lparr>lastActivity := now\<rparr>)"
  using assms
  by (cases cid; simp add: sendMessageViaSocket_def Let_def setTimeout_def addMessage_def
      effects_of_def store_of_def)+

lemma timeout_fired:
  assumes "trim msg \<noteq> []" and "currentConversation s = Some c"
  shows "fst (socketTimeout_fired now msg cid (expire h s))
           = [ApiSendMessage (trim msg) (case cid of Some i \<Rightarrow> Some i | None \<Rightarrow> Some (conv_id c))]"
    and "pending (snd (socketTimeout_fired now msg cid (expire h s))) = [tempUserMessage now msg]"
proof -
  let ?s = "removeTemp (expire h s)"
  have cur: "currentConversation ?s = Some c"
    using assms(2) by (simp add: removeTemp_def expire_def)
  show "fst (socketTimeout_fired now msg cid (expire h s))
      = [ApiSendMessage (trim msg) (case cid of Some i \<Rightarrow> Some i | None \<Rightarrow> Some (conv_id c))]"
    using assms(1) cur
    by (cases cid) (simp_all add: socketTimeout_fired_def sendMessage_start_nonblank)
  have "pending (store_of (sendMessage_start now msg cid ?s)) = pending ?s @ [tempUserMessage now msg]"
    using assms(1) cur by (intro sendMessage_start_pending) simp_all
  then show "pending (snd (socketTimeout_fired now msg cid (expire h s))) = [tempUserMessage now msg]"
    by (simp add: socketTimeout_fired_def store_of_def pending_removeTemp)
qed

text \<open>
  C3 (amended). A non-blank message is sent over a connected socket with a conversation
  open, and no \<^verbatim>\<open>messageSent\<close> arrives before the 10 s timer fires. Then: the socket
  send emitted \<^verbatim>\<open>newMessage\<close> with the trimmed content and the conversation id; the
  timer's callback removes every pending message, adds one pending message again and
  issues the fallback request with the same content and conversation id; when the
  fallback answers with a conversation, the list becomes that conversation's messages;
  and a \<^verbatim>\<open>messageSent\<close> confirmation that arrives after that is not ignored but
  appended, so the list then holds one confirmed copy of the user's message more than
  the server's conversation does.
\<close>

theorem timeout_fallback_then_late_confirmation:
  assumes "trim msg \<noteq> []" and "socket s = Some k" and "connected k"
    and "currentConversation s = Some c"
    and "sender m = User" and "\<not> temp m"
    and "s1 = store_of (sendMessageViaSocket t1 e msg cid s)"
    and "s2 = snd (socketTimeout_fired t2 msg cid (expire (nextHandle s) s1))"
    and "s3 = store_of (sendMessage_resolved cid (ApiData conv um) s2)"
    and "s4 = on_messageSent t4 (Some m) s3"
  shows "effects_of (sendMessageViaSocket t1 e msg cid s)
           = [EmitNewMessage (trim msg) (case cid of Some i \<Rightarrow> Some i | None \<Rightarrow> Some (conv_id c))
                (user e)]
       \<and> fst (socketTimeout_fired t2 msg cid (expire (nextHandle s) s1))
           = [ApiSendMessage (trim msg) (case cid of Some i \<Rightarrow> Some i | None \<Rightarrow> Some (conv_id c))]
       \<and> pending s2 = [tempUserMessage t2 msg]
       \<and> messages s3 = conv_messages conv
       \<and> messages s4 = filter (\<lambda>x. \<not> temp x) (conv_messages conv) @ [m]
       \<and> confirmed_copies (content m) (messages s4)
           = confirmed_copies (content m) (conv_messages conv) + 1"
proof -
  note v = viaSocket_connected [OF assms(1-4), of t1 e cid]
  have cur1: "currentConversation s1 = Some (c\<lparr>lastActivity := t1\<rparr>)"
    using v(2) assms(7) by simp
  note f = timeout_fired [OF assms(1) cur1, of t2 cid "nextHandle s"]
  have m3: "messages s3 = conv_messages conv" and cur3: "currentConversation s3 \<noteq> None"
    using assms(9) by (simp_all add: messages_resolved)
  have m4: "messages s4 = filter (\<lambda>x. \<not> temp x) (conv_messages conv) @ [m]"
    using messages_on_messageSent [OF cur3, of t4 m] m3 assms(10) by simp
  have "confirmed_copies (content m) (messages s4)
      = confirmed_copies (content m) (conv_messages conv) + 1"
    using assms(5,6) by (simp add: m4 confirmed_copies_append confirmed_copies_filter)
  then show ?thesis
    using v(1) f assms(8) m3 m4 by (cases cid) simp_all
qed

theorem timeout_fallback_then_late_confirmation_witness:
  "messages
     (on_messageSent 10051 (Some (userMessage 10050 (js ''Hello'')))
        (store_of (sendMessage_resolved (Some 7)
           (ApiData ((empty_conversation 7)\<lparr>conv_messages :=
                [userMessage 10002 (js ''Hello''), botMessage 10003 sample_reply]\<rparr>) None)
           (snd (socketTimeout_fired 10001 (js ''Hello'') (Some 7)
              (expire (nextHandle (online_store (empty_conversation 7)))
                 (store_of (sendMessageViaSocket 1 logged_in (js ''Hello'') (Some 7)
                    (online_store (empty_conversation 7))))))))))
   = [userMessage 10002 (js ''Hello''), botMessage 10003 sample_reply,
      userMessage 10050 (js ''Hello'')]"
proof -
  let ?s = "online_store (empty_conversation 7)"
  have a: "trim (js ''Hello'') \<noteq> []"
    by (simp add: hello)
  have b: "socket ?s = Some \<lparr>connected = True, once_messageSent = []\<rparr>"
    by (simp add: eval_defs)
  have c: "connected \<lparr>connected = True, once_messageSent = []\<rparr>"
    by simp
  have d: "currentConversation ?s = Some (empty_conversation 7)"
    by (simp add: eval_defs)
  have u: "sender (userMessage 10050 (js ''Hello'')) = User"
    and n: "\<not> temp (userMessage 10050 (js ''Hello''))"
    by (simp_all add: userMessage_def)
  have nt: "filter (\<lambda>x. \<not> temp x) [userMessage 10002 (js ''Hello''), botMessage 10003 sample_reply]
      = [userMessage 10002 (js ''Hello''), botMessage 10003 sample_reply]"
    by (simp add: userMessage_def botMessage_def)
  show ?thesis
    using timeout_fallback_then_late_confirmation [OF a b c d u n refl refl refl refl,
        of 1 logged_in "Some 7" 10001 "(empty_conversation 7)\<lparr>conv_messages :=
                [userMessage 10002 (js ''Hello''), botMessage 10003 sample_reply]\<rparr>"
           None 10051] nt
    by simp
qed

section \<open>The router when the completion service fails\<close>





section \<open>The confirmation of a socket message\<close>

text \<open>
  C9 (counterexample). A first Hello over the socket, with a store that accepts writes:
  when \<^verbatim>\<open>messageSent\<close> is emitted nothing has been saved yet. With a store that rejects
  writes, \<^verbatim>\<open>messageSent\<close> is emitted all the same and nothing is ever saved.
\<close>

theorem messageSent_before_save_counterexample:
  "sent_messages (handleNewMessage (sample_env NotFound 10) 1 (js ''Hello'') None)
     = [userMessage 10 (js ''Hello'')]
   \<and> saved_before_messageSent (handleNewMessage (sample_env NotFound 10) 1 (js ''Hello'') None)
     = []
   \<and> sent_messages (handleNewMessage (readonly_env NotFound 10) 1 (js ''Hello'') None)
     = [userMessage 10 (js ''Hello'')]
   \<and> saves (handleNewMessage (readonly_env NotFound 10) 1 (js ''Hello'') None) = []"
  by (simp add: handleNewMessage_def socket_aiError_def readonly_env_def sample_env_def Let_def
      saved_before_messageSent_def)

lemma handleNewMessage_unfold:
  assumes "findOne env cid uid \<noteq> QueryFailed"
  shows "handleNewMessage env uid msg cid =
       ToRoom uid (BotTyping cid) # ToSender (MessageSent (userMessage (now0 env) msg)) #
       CallProvider msg (conv_messages (push (userMessage (now0 env) msg) 
            (case findOne env cid uid of Found c' \<Rightarrow> c' | _ \<Rightarrow> new_conversation env uid msg))) #
       (case provider env msg (conv_messages (push (userMessage (now0 env) msg) 
            (case findOne env cid uid of Found c' \<Rightarrow> c' | _ \<Rightarrow> new_conversation env uid msg))) of
          Inl err \<Rightarrow> socket_aiError env 0 uid cid (push (userMessage (now0 env) msg) 
            (case findOne env cid uid of Found c' \<Rightarrow> c' | _ \<Rightarrow> new_conversation env uid msg))
        | Inr ai \<Rightarrow>
            if \<not> save_ok env 0
            then socket_aiError env 1 uid cid
              ((push (botMessage (now1 env) ai) (push (userMessage (now0 env) msg) 
            (case findOne env cid uid of Found c' \<Rightarrow> c' | _ \<Rightarrow> new_conversation env uid msg)))
                 \<lparr>lastActivity := now1 env\<rparr>)
            else [Save ((push (botMessage (now1 env) ai) (push (userMessage (now0 env) msg) 
            (case findOne env cid uid of Found c' \<Rightarrow> c' | _ \<Rightarrow> new_conversation env uid msg)))
                   \<lparr>lastActivity := now1 env\<rparr>),
                  ToRoom uid (BotStoppedTyping cid),
                  ToSender (BotMessage (botMessage (now1 env) ai) (ai_metadata ai))])"
  using assms
  by (cases "findOne env cid uid")
     (simp_all add: handleNewMessage_def Let_def split: sum.splits)

lemma saves_socket_aiError:
  "saves (socket_aiError env k uid cid c)
     = (if save_ok env k then [push (errorMessage (now1 env)) c] else [])"
  by (simp add: socket_aiError_def Let_def)

text \<open>
  C9 (amended). Whenever the lookup of the conversation answers, the socket handler
  emits \<^verbatim>\<open>messageSent\<close> with the user message as its second emission, right after the
  typing signal and before the completion service is called: no save precedes it. The
  message is in the store only later: every save the handler then makes contains it,
  and there is such a save when the first write is accepted.
\<close>

theorem messageSent_precedes_every_save:
  assumes "findOne env cid uid \<noteq> QueryFailed"
  shows "take 2 (handleNewMessage env uid msg cid)
           = [ToRoom uid (BotTyping cid), ToSender (MessageSent (userMessage (now0 env) msg))]
       \<and> saved_before_messageSent (handleNewMessage env uid msg cid) = []
       \<and> (\<forall>c \<in> set (saves (handleNewMessage env uid msg cid)).
             userMessage (now0 env) msg \<in> set (conv_messages c))
       \<and> (save_ok env 0 \<longrightarrow> saves (handleNewMessage env uid msg cid) \<noteq> [])"
proof -
  let ?c1 = "push (userMessage (now0 env) msg)
      (case findOne env cid uid of Found c' \<Rightarrow> c' | _ \<Rightarrow> new_conversation env uid msg)"
  note h = handleNewMessage_unfold [OF assms, of msg]
  have "take 2 (handleNewMessage env uid msg cid)
      = [ToRoom uid (BotTyping cid), ToSender (MessageSent (userMessage (now0 env) msg))]"
    by (simp add: h)
  moreover have "saved_before_messageSent (handleNewMessage env uid msg cid) = []"
    by (simp add: h saved_before_messageSent_def)
  moreover have "\<forall>c \<in> set (saves (handleNewMessage env uid msg cid)).
      userMessage (now0 env) msg \<in> set (conv_messages c)"
    by (cases "provider env msg (conv_messages ?c1)")
       (simp_all add: h saves_socket_aiError push_def)
  moreover have "save_ok env 0 \<longrightarrow> saves (handleNewMessage env uid msg cid) \<noteq> []"
    by (cases "provider env msg (conv_messages ?c1)") (simp_all add: h saves_socket_aiError)
  ultimately show ?thesis by simp
qed

theorem messageSent_precedes_every_save_witness:
  "take 2 (handleNewMessage (sample_env NotFound 10) 1 (js ''Hello'') None)
     = [ToRoom 1 (BotTyping None), ToSender (MessageSent (userMessage 10 (js ''Hello'')))]
   \<and> saves (handleNewMessage (sample_env NotFound 10) 1 (js ''Hello'') None) \<noteq> []"
proof -
  have a: "findOne (sample_env NotFound 10) None 1 \<noteq> QueryFailed"
    and b: "save_ok (sample_env NotFound 10) 0" and c: "now0 (sample_env NotFound 10) = 10"
    by (simp_all add: sample_env_def)
  show ?thesis
    using messageSent_precedes_every_save [OF a, of "js ''Hello''"] b c by simp
qed

section \<open>The two paths to the router\<close>

lemma http_new_conversation:
  assumes "trim msg \<noteq> []" and "length msg \<le> 4000"
    and "\<And>k. save_ok env k" and "populate_ok env"
  shows "http_sendMessage env uid msg None =
     CallProvider msg [userMessage (now0 env) msg] #
     (case provider env msg [userMessage (now0 env) msg] of
        Inl err \<Rightarrow>
          [Save ((new_conversation env uid msg)
                  \<lparr>conv_messages := [userMessage (now0 env) msg], lastActivity := now1 env\<rparr>),
           Save ((new_conversation env uid msg)
                  \<lparr>conv_messages := [userMessage (now0 env) msg, errorMessage (now1 env)],
                    lastActivity := now1 env\<rparr>),
           Respond (Sent ((new_conversation env uid msg)
                  \<lparr>conv_messages := [userMessage (now0 env) msg, errorMessage (now1 env)],
                    lastActivity := now1 env\<rparr>)
              (userMessage (now0 env) msg) (errorMessage (now1 env)) AiError)]
      | Inr ai \<Rightarrow>
          [Save ((new_conversation env uid msg)
                  \<lparr>conv_messages := [userMessage (now0 env) msg, botMessage (now1 env) ai],
                    lastActivity := now1 env\<rparr>),
           Respond (Sent ((new_conversation env uid msg)
                  \<lparr>conv_messages := [userMessage (now0 env) msg, botMessage (now1 env) ai],
                    lastActivity := now1 env\<rparr>)
              (userMessage (now0 env) msg) (botMessage (now1 env) ai)
              (AiMetadata (ai_metadata ai)))])"
  using assms
  by (simp add: http_sendMessage_def http_aiError_def Let_def push_def slice_last_def
      new_conversation_def split: sum.splits)

lemma socket_new_conversation:
  assumes "\<And>k. save_ok env k" and "findOne env cid uid = NotFound"
  shows "handleNewMessage env uid msg cid =
     ToRoom uid (BotTyping cid) # ToSender (MessageSent (userMessage (now0 env) msg)) #
     CallProvider msg [userMessage (now0 env) msg] #
     (case provider env msg [userMessage (now0 env) msg] of
        Inl err \<Rightarrow>
          [ToRoom uid (BotStoppedTyping cid),
           Save ((new_conversation env uid msg)
                  \<lparr>conv_messages := [userMessage (now0 env) msg, errorMessage (now1 env)]\<rparr>),
           ToSender (BotMessage (errorMessage (now1 env)) ErrorMeta)]
      | Inr ai \<Rightarrow>
          [Save ((new_conversation env uid msg)
                  \<lparr>conv_messages := [userMessage (now0 env) msg, botMessage (now1 env) ai],
                    lastActivity := now1 env\<rparr>),
           ToRoom uid (BotStoppedTyping cid),
           ToSender (BotMessage (botMessage (now1 env) ai) (ai_metadata ai))])"
  using assms
  by (simp add: handleNewMessage_def socket_aiError_def Let_def push_def
      new_conversation_def split: sum.splits)

text \<open>
  C6. One message that is not blank and has at most 4000 characters, no conversation
  yet (the fallback request carries no conversation id, the socket handler's lookup
  finds none), a store that accepts the writes. Then both paths call the completion
  service once, with the message and the history holding just the user message; both
  leave in the store a conversation with exactly two messages, the user message and the
  reply (the service's answer, or the apology when it fails); both deliver that reply;
  and the two stored conversations are equal up to \<^verbatim>\<open>lastActivity\<close>, which the socket's
  failure branch does not update.
\<close>

theorem both_paths_store_the_same:
  assumes "trim msg \<noteq> []" and "length msg \<le> 4000"
    and "\<And>k. save_ok env k" and "populate_ok env"
    and "findOne env cid uid = NotFound"
    and "reply = reply_of env (provider env msg [userMessage (now0 env) msg])"
    and "h = http_sendMessage env uid msg None"
    and "w = handleNewMessage env uid msg cid"
  shows "provider_calls h = [(msg, [userMessage (now0 env) msg])]
       \<and> provider_calls w = [(msg, [userMessage (now0 env) msg])]
       \<and> map_option conv_messages (stored h) = Some [userMessage (now0 env) msg, reply]
       \<and> map_option conv_messages (stored w) = Some [userMessage (now0 env) msg, reply]
       \<and> delivered h = [reply]
       \<and> delivered w = [reply]
       \<and> map_option (\<lambda>c. c\<lparr>lastActivity := 0\<rparr>) (stored h)
           = map_option (\<lambda>c. c\<lparr>lastActivity := 0\<rparr>) (stored w)"
proof (cases "provider env msg [userMessage (now0 env) msg]")
  case (Inl err)
  then show ?thesis
    using http_new_conversation [OF assms(1-4), of uid]
      socket_new_conversation [OF assms(3,5), of msg] assms(6-8)
    by (simp add: stored_def reply_of_def)
next
  case (Inr ai)
  then show ?thesis
    using http_new_conversation [OF assms(1-4), of uid]
      socket_new_conversation [OF assms(3,5), of msg] assms(6-8)
    by (simp add: stored_def reply_of_def)
qed

theorem both_paths_store_the_same_witness:
  "map_option conv_messages (stored (http_sendMessage (sample_env NotFound 10) 1 (js ''Hello'') None))
     = Some [userMessage 10 (js ''Hello''), botMessage 11 sample_reply]
   \<and> map_option conv_messages
       (stored (handleNewMessage (sample_env NotFound 10) 1 (js ''Hello'') None))
     = Some [userMessage 10 (js ''Hello''), botMessage 11 sample_reply]"
proof -
  let ?env = "sample_env NotFound 10"
  have a: "trim (js ''Hello'') \<noteq> []" and b: "length (js ''Hello'') \<le> 4000"
    by (simp_all add: hello)
  have s: "\<And>k. save_ok ?env k" and p: "populate_ok ?env"
    and f: "findOne ?env None 1 = NotFound"
    by (simp_all add: sample_env_def)
  have r: "reply_of ?env (provider ?env (js ''Hello'') [userMessage (now0 ?env) (js ''Hello'')])
      = botMessage 11 sample_reply" and t: "now0 ?env = 10"
    by (simp_all add: sample_env_def reply_of_def)
  show ?thesis
    using both_paths_store_the_same [OF a b s p f refl refl refl] r t by simp
qed

section \<open>The completion service never rejects\<close>

lemma getMockResponse_meta:
  "isMock (ai_metadata (getMockResponse m et))"
  "ai_metadata (getMockResponse m et) \<noteq> ErrorMeta"
  by (simp_all add: getMockResponse_def)

lemma on_openai_error_Inr:
  "\<exists>r. snd (on_openai_error svc now m err) = Inr r \<and> isMock (ai_metadata r)
       \<and> ai_metadata r \<noteq> ErrorMeta"
  by (cases err) (simp_all add: on_openai_error_def getMockResponse_meta)

lemma generateResponse_Inr:
  "\<exists>r. snd (generateResponse svc now api m hist) = Inr r
       \<and> ai_metadata r \<noteq> ErrorMeta
       \<and> (isMock (ai_metadata r)
          \<or> (\<exists>res txt. api (chat_messages m hist) = Inr res \<and> choice res = Some txt
                \<and> response r = txt))"
proof (cases "(case rateLimitedUntil svc of None \<Rightarrow> False | Some u \<Rightarrow> now < u)
    \<or> useMockResponse svc \<or> failureCount svc \<ge> maxFailures")
  case True
  then show ?thesis
    by (auto simp: generateResponse_def getMockResponse_meta)
next
  case False
  show ?thesis
  proof (cases "api (chat_messages m hist)")
    case (Inl err)
    then show ?thesis
      using False on_openai_error_Inr [of svc now m err]
      by (auto simp: generateResponse_def)
  next
    case (Inr res)
    show ?thesis
    proof (cases "choice res")
      case None
      then show ?thesis
        using False Inr on_openai_error_Inr [of svc now m OtherError]
        by (auto simp: generateResponse_def)
    next
      case (Some answer)
      then show ?thesis
        using False Inr by (auto simp: generateResponse_def)
    qed
  qed
qed

lemma not_apology:
  "ai_metadata ai \<noteq> ErrorMeta \<Longrightarrow> errorMessage t \<noteq> botMessage t' ai"
  by (auto simp: errorMessage_def botMessage_def)

lemma http_no_apology:
  assumes "\<And>h. \<exists>ai. provider env msg h = Inr ai \<and> ai_metadata ai \<noteq> ErrorMeta"
    and "save_ok env 0" and "populate_ok env"
  shows "errorMessage (now1 env) \<notin> set (delivered (http_sendMessage env uid msg cid))"
proof -
  have "errorMessage (now1 env) \<notin> set (delivered
      (case provider env msg h of
         Inl err \<Rightarrow> http_aiError env 0 c1 um
       | Inr ai \<Rightarrow>
           (let bm = botMessage (now1 env) ai;
                c2 = (push bm c1)\<lparr>lastActivity := now1 env\<rparr>
            in if \<not> save_ok env 0 then http_aiError env 1 c2 um
               else Save c2 #
                 (if \<not> populate_ok env then http_aiError env 1 c2 um
                  else [Respond (Sent c2 um bm (AiMetadata (ai_metadata ai)))]))))" for h c1 um
    using assms(1) [of h] assms(2,3) by (auto simp: Let_def not_apology)
  then show ?thesis
    by (simp add: http_sendMessage_def Let_def split: option.splits lookup.splits)
qed

lemma socket_no_apology:
  assumes "\<And>h. \<exists>ai. provider env msg h = Inr ai \<and> ai_metadata ai \<noteq> ErrorMeta"
    and "save_ok env 0"
  shows "errorMessage (now1 env) \<notin> set (delivered (handleNewMessage env uid msg cid))"
proof -
  have "errorMessage (now1 env) \<notin> set (delivered
      (case provider env msg h of
         Inl err \<Rightarrow> socket_aiError env 0 uid cid c1
       | Inr ai \<Rightarrow>
           (let bm = botMessage (now1 env) ai;
                c2 = (push bm c1)\<lparr>lastActivity := now1 env\<rparr>
            in if \<not> save_ok env 0 then socket_aiError env 1 uid cid c2
               else [Save c2, ToRoom uid (BotStoppedTyping cid),
                     ToSender (BotMessage bm (ai_metadata ai))])))" for h c1
    using assms(1) [of h] assms(2) by (auto simp: Let_def not_apology)
  then show ?thesis
    by (simp add: handleNewMessage_def Let_def split: lookup.splits)
qed

lemma openai_provider_answers:
  "\<exists>ai. openai_provider svc now api msg h = Inr ai \<and> ai_metadata ai \<noteq> ErrorMeta"
  using generateResponse_Inr [of svc now api msg h] by (auto simp: openai_provider_def)

text \<open>
  C10 (counterexample). The router runs with the OpenAI service as its provider; the
  service answers with a mock reply. The store rejects the first write and accepts the
  next: the socket handler is in its \<^verbatim>\<open>catch (aiError)\<close> branch and delivers the apology.
\<close>

theorem catch_branch_reached_counterexample:
  "delivered (handleNewMessage (openai_env False) 1 (js ''Hello'') None) = [errorMessage 11]"
proof -
  obtain ai where "provider (openai_env False) (js ''Hello'')
      (conv_messages (push (userMessage 10 (js ''Hello''))
         (new_conversation (openai_env False) 1 (js ''Hello'')))) = Inr ai"
    using openai_provider_answers by (fastforce simp: openai_env_def)
  then show ?thesis
    by (simp add: handleNewMessage_def socket_aiError_def Let_def openai_env_def)
qed

text \<open>
  C10 (amended). For every message and history \<^verbatim>\<open>generateResponse\<close> resolves: every
  failure of the API call, a missing choice, a missing key, the rate-limited state and
  the failure ceiling all end in a mock reply with \<^verbatim>\<open>isMock = true\<close>, and otherwise the
  reply is the API's answer. So with this service as the provider no completion failure
  takes the router to its \<^verbatim>\<open>catch (aiError)\<close> branches: when the first write of the
  run is accepted (and, for the HTTP handler, \<^verbatim>\<open>populate\<close> succeeds) the apology is not
  delivered. The branches are still entered when that write or \<^verbatim>\<open>populate\<close> throws.
\<close>

theorem completion_failures_become_mock_replies:
  assumes "provider env = openai_provider svc now api"
    and "save_ok env 0" and "populate_ok env"
  shows "(\<exists>r. snd (generateResponse svc now api msg hist) = Inr r
            \<and> (isMock (ai_metadata r)
               \<or> (\<exists>res txt. api (chat_messages msg hist) = Inr res \<and> choice res = Some txt
                     \<and> response r = txt)))
       \<and> errorMessage (now1 env) \<notin> set (delivered (http_sendMessage env uid msg cid))
       \<and> errorMessage (now1 env) \<notin> set (delivered (handleNewMessage env uid msg cid))"
proof -
  have p: "\<And>h. \<exists>ai. provider env msg h = Inr ai \<and> ai_metadata ai \<noteq> ErrorMeta"
    using openai_provider_answers by (simp add: assms(1))
  have "\<exists>r. snd (generateResponse svc now api msg hist) = Inr r
            \<and> (isMock (ai_metadata r)
               \<or> (\<exists>res txt. api (chat_messages msg hist) = Inr res \<and> choice res = Some txt
                     \<and> response r = txt))"
    using generateResponse_Inr [of svc now api msg hist] by blast
  then show ?thesis
    using http_no_apology [OF p assms(2,3)] socket_no_apology [OF p assms(2)] by simp
qed

theorem completion_failures_become_mock_replies_witness:
  "errorMessage 11 \<notin> set (delivered (http_sendMessage (openai_env True) 1 (js ''Hello'') None))
   \<and> errorMessage 11 \<notin> set (delivered (handleNewMessage (openai_env True) 1 (js ''Hello'') None))"
proof -
  have a: "provider (openai_env True) = openai_provider no_key 10 (\<lambda>ms. Inl OtherError)"
    and b: "save_ok (openai_env True) 0" and c: "populate_ok (openai_env True)"
    and d: "now1 (openai_env True) = 11"
    by (simp_all add: openai_env_def)
  show ?thesis
    using completion_failures_become_mock_replies [OF a b c, of _ _ 1 None] d by simp
qed

end
